theory Spec2Isabelle
  imports Main
begin

section \<open>Go values seen by the HTTP layer\<close>

text \<open>
  A JSON document, as \<^verbatim>\<open>encoding/json\<close> writes it. The response body of a handler is kept
  as the document that \<^verbatim>\<open>json.NewEncoder(w).Encode\<close> serialises (the encoder appends a
  newline to the serialised text).
\<close>

datatype json = JNull | JString string | JArray "json list" | JObject "(string \<times> json) list"

text \<open>
  The values of Go's \<^verbatim>\<open>error\<close> interface that reach this code:
  \<^item> \<open>HttpError c m\<close> is \<^verbatim>\<open>rpc.httpError{HTTPCode: c, Message: m}\<close>;
  \<^item> \<open>MaxBytesError n\<close> is \<^verbatim>\<open>*http.MaxBytesError{Limit: n}\<close>;
  \<^item> \<open>ErrChannelNotFound\<close> is the sentinel \<^verbatim>\<open>tuner.ErrChannelNotFound\<close>;
  \<^item> \<open>ErrorString m\<close> is \<^verbatim>\<open>errors.New(m)\<close>, or any other error without a wrapped cause;
  \<^item> \<open>Wrapped m e\<close> is an error with message \<open>m\<close> whose \<^verbatim>\<open>Unwrap\<close> returns \<open>e\<close>.
\<close>

datatype go_error =
    HttpError int string
  | MaxBytesError int
  | ErrChannelNotFound
  | ErrorString string
  | Wrapped string go_error

text \<open>
  \<^verbatim>\<open>err.Error()\<close>. The message of \<^verbatim>\<open>tuner.ErrChannelNotFound\<close> is declared in the tuner
  package; the text used here is the one of the specification's scenario 3.
\<close>

fun go_Error :: "go_error \<Rightarrow> string" where
  "go_Error (HttpError c m) = m"
| "go_Error (MaxBytesError n) = ''http: request body too large''"
| "go_Error ErrChannelNotFound = ''channel not found''"
| "go_Error (ErrorString m) = m"
| "go_Error (Wrapped m e) = m"

text \<open>\<^verbatim>\<open>errors.Is(err, tuner.ErrChannelNotFound)\<close>: the sentinel, or an error wrapping it.\<close>

fun errors_Is_ErrChannelNotFound :: "go_error \<Rightarrow> bool" where
  "errors_Is_ErrChannelNotFound ErrChannelNotFound = True"
| "errors_Is_ErrChannelNotFound (Wrapped m e) = errors_Is_ErrChannelNotFound e"
| "errors_Is_ErrChannelNotFound e = False"

text \<open>\<^verbatim>\<open>errors.As(err, &herr)\<close> for \<^verbatim>\<open>herr httpError\<close>: the first \<^verbatim>\<open>httpError\<close> of the chain.\<close>

fun errors_As_httpError :: "go_error \<Rightarrow> (int \<times> string) option" where
  "errors_As_httpError (HttpError c m) = Some (c, m)"
| "errors_As_httpError (Wrapped m e) = errors_As_httpError e"
| "errors_As_httpError e = None"

text \<open>
  A value of type \<^verbatim>\<open>any\<close> returned by an RPC handler as the response body: the nil
  interface, an error, or another value, given by the JSON document it marshals to.
\<close>

datatype body_any = BodyNil | BodyError go_error | BodyValue json

section \<open>Requests, readers and responses\<close>

text \<open>
  A request body. \<open>RawBody d e\<close> is any \<^verbatim>\<open>io.ReadCloser\<close> other than the RPC framework's own
  buffer: it yields the bytes \<open>d\<close> and then ends, with \<^verbatim>\<open>io.EOF\<close> when \<open>e = None\<close> and with
  the read error \<open>e\<close> otherwise (the final condition is returned by a \<^verbatim>\<open>Read\<close> of its own,
  after the last byte). \<open>BufferedBody d\<close> is \<^verbatim>\<open>&bufferedBody{rbody}\<close>, the sentinel type
  that \<^verbatim>\<open>WithLimitedBodyBuffer\<close> installs.
\<close>

datatype req_body = RawBody string "go_error option" | BufferedBody string

text \<open>
  The fields of \<^verbatim>\<open>*http.Request\<close> that the code reads. \<open>Header\<close> holds one pair per
  canonical header name, with the first value of that header, which is what
  \<^verbatim>\<open>Header.Get\<close> returns.
\<close>

record request =
  Method :: string
  Path :: string
  Host :: string
  Header :: "(string \<times> string) list"
  Body :: req_body

definition Header_Get :: "(string \<times> string) list \<Rightarrow> string \<Rightarrow> string" where
  "Header_Get h k = (case map_of h k of None \<Rightarrow> [] | Some v \<Rightarrow> v)"

text \<open>An \<^verbatim>\<open>io.Reader\<close>, as the bytes it yields and the condition that ends it.\<close>

type_synonym reader = "string \<times> go_error option"

fun body_reader :: "req_body \<Rightarrow> reader" where
  "body_reader (RawBody d e) = (d, e)"
| "body_reader (BufferedBody d) = (d, None)"

text \<open>The body left in the request once \<open>k\<close> bytes have been read from it.\<close>

fun body_consumed :: "nat \<Rightarrow> req_body \<Rightarrow> req_body" where
  "body_consumed k (RawBody d e) = RawBody (drop k d) e"
| "body_consumed k (BufferedBody d) = BufferedBody (drop k d)"

text \<open>
  \<^verbatim>\<open>bytes.Buffer.ReadFrom\<close> reads until the reader ends and returns what was read, with
  the error unless that is \<^verbatim>\<open>io.EOF\<close>. The count \<open>n\<close> it also returns is the length of
  the data.
\<close>

definition ReadFrom :: "reader \<Rightarrow> string \<times> go_error option" where
  "ReadFrom rd = rd"

text \<open>
  \<^verbatim>\<open>http.MaxBytesReader(w, r, n)\<close>: a negative limit counts as 0; a reader of more than
  \<open>n\<close> bytes yields its first \<open>n\<close> bytes and then fails with \<^verbatim>\<open>*http.MaxBytesError\<close>.
  (A server's response writer is also told to close the connection; responses here hold
  what the handlers write.)
\<close>

definition MaxBytesReader :: "int \<Rightarrow> reader \<Rightarrow> reader" where
  "MaxBytesReader n rd =
     (let l = (if n < 0 then 0 else n) in
      if int (length (fst rd)) > l then (take (nat l) (fst rd), Some (MaxBytesError l))
      else rd)"



text \<open>
  What a handler has written to its \<^verbatim>\<open>http.ResponseWriter\<close>: the status code, the headers
  it added, and the body.
\<close>

datatype resp_body = NoBody | JsonBody json | TextBody string

record response =
  status :: int
  headers :: "(string \<times> string) list"
  body :: resp_body

abbreviation StatusOK :: int where "StatusOK \<equiv> 200"
abbreviation StatusNoContent :: int where "StatusNoContent \<equiv> 204"
abbreviation StatusBadRequest :: int where "StatusBadRequest \<equiv> 400"
abbreviation StatusForbidden :: int where "StatusForbidden \<equiv> 403"
abbreviation StatusNotFound :: int where "StatusNotFound \<equiv> 404"
abbreviation StatusMethodNotAllowed :: int where "StatusMethodNotAllowed \<equiv> 405"
abbreviation StatusRequestEntityTooLarge :: int where "StatusRequestEntityTooLarge \<equiv> 413"
abbreviation StatusUnsupportedMediaType :: int where "StatusUnsupportedMediaType \<equiv> 415"
abbreviation StatusInternalServerError :: int where "StatusInternalServerError \<equiv> 500"
abbreviation MethodPost :: string where "MethodPost \<equiv> ''POST''"

text \<open>
  An \<^verbatim>\<open>http.Handler\<close> over a program state \<open>'s\<close> (here: the tuner): it answers a request
  and returns the state it leaves behind.
\<close>

type_synonym 's http_handler = "request \<Rightarrow> 's \<Rightarrow> response \<times> 's"

text \<open>
  \<^verbatim>\<open>rpc.HandlerFunc[T]\<close>: from the request and the decoded parameters to a status code and a
  response body.
\<close>

type_synonym ('p, 's) handler_func = "request \<Rightarrow> 'p \<Rightarrow> 's \<Rightarrow> (int \<times> body_any) \<times> 's"

section \<open>Package rpc (internal/api/rpc/rpc.go)\<close>

definition errReadingBody :: go_error where
  "errReadingBody = HttpError StatusInternalServerError ''unable to read RPC body''"

definition errBodyTooLarge :: go_error where
  "errBodyTooLarge = HttpError StatusRequestEntityTooLarge ''RPC body exceeded maximum size''"

definition errInvalidBodyType :: go_error where
  "errInvalidBodyType =
     HttpError StatusUnsupportedMediaType ''must have Content-Type: application/json''"

definition errInvalidBody :: go_error where
  "errInvalidBody = HttpError StatusBadRequest ''unable to decode RPC body''"

definition errorHTTPCode :: "go_error \<Rightarrow> int" where
  "errorHTTPCode err =
     (case errors_As_httpError err of
        Some herr \<Rightarrow> fst herr
      | None \<Rightarrow> StatusInternalServerError)"

text \<open>
  \<^verbatim>\<open>respondIfBadMethod\<close> returns the response it has written when it blocks the request,
  and \<open>None\<close> when it returns \<^verbatim>\<open>false\<close>.
\<close>

definition respondIfBadMethod :: "request \<Rightarrow> response option" where
  "respondIfBadMethod r =
     (if Method r \<noteq> MethodPost
      then Some \<lparr>status = StatusMethodNotAllowed, headers = [(''Allow'', MethodPost)], body = NoBody\<rparr>
      else None)"

text \<open>
  \<^verbatim>\<open>respond\<close>: an error body becomes the struct with the field \<^verbatim>\<open>Error\<close>; a body that
  is then nil gives the status code alone; any other body is encoded after the header and the
  status code are written.
\<close>

definition respond :: "int \<Rightarrow> body_any \<Rightarrow> response" where
  "respond code b =
     (case (case b of
              BodyError berr \<Rightarrow> Some (JObject [(''Error'', JString (go_Error berr))])
            | BodyValue j \<Rightarrow> Some j
            | BodyNil \<Rightarrow> None) of
        None \<Rightarrow> \<lparr>status = code, headers = [], body = NoBody\<rparr>
      | Some j \<Rightarrow>
          \<lparr>status = code, headers = [(''Content-Type'', ''application/json'')],
           body = JsonBody j\<rparr>)"

definition respondError :: "go_error \<Rightarrow> response" where
  "respondError err = respond (errorHTTPCode err) (BodyError err)"

text \<open>
  \<^verbatim>\<open>Handler[T].ServeHTTP\<close>. \<open>unmarshal\<close> is \<^verbatim>\<open>json.Unmarshal\<close> into a fresh value of the
  parameter type \<^verbatim>\<open>T\<close> (\<open>None\<close> when it returns an error) and \<open>zero\<close> is the zero value of
  \<^verbatim>\<open>T\<close>. A body that is not the framework's buffer is read to its end, and the handler
  sees the request with that body consumed.
\<close>

definition Handler_ServeHTTP ::
  "(string \<Rightarrow> 'p option) \<Rightarrow> 'p \<Rightarrow> ('p, 's) handler_func \<Rightarrow> 's http_handler" where
  "Handler_ServeHTTP unmarshal zero h_Handle r s =
     (case respondIfBadMethod r of
        Some blocked \<Rightarrow> (blocked, s)
      | None \<Rightarrow>
          (case (case Body r of
                   BufferedBody b \<Rightarrow> (b, None, r)
                 | RawBody d e \<Rightarrow>
                     (case ReadFrom (d, e) of
                        (rb, None) \<Rightarrow> (rb, None, r\<lparr>Body := body_consumed (length rb) (Body r)\<rparr>)
                      | (rb, Some x) \<Rightarrow>
                          (rb, Some errReadingBody,
                           r\<lparr>Body := body_consumed (length rb) (Body r)\<rparr>))) of
             (rbody, err, r') \<Rightarrow>
               (case (if length rbody > 0 then
                        (if Header_Get (Header r) ''Content-Type'' \<noteq> ''application/json''
                         then (zero, Some errInvalidBodyType)
                         else (case unmarshal rbody of
                                 None \<Rightarrow> (zero, Some errInvalidBody)
                               | Some p \<Rightarrow> (p, None)))
                      else (zero, err)) of
                  (params, Some e) \<Rightarrow> (respondError e, s)
                | (params, None) \<Rightarrow>
                    (case h_Handle r' params s of
                       ((code, b), s') \<Rightarrow> (respond code b, s')))))"

text \<open>
  \<^verbatim>\<open>rpc.Handle\<close>, the function form of the same handler, which \<^verbatim>\<open>api.NewHandler\<close> and
  the package's test call (it returns at once when the body cannot be read).
\<close>

definition Handle ::
  "(string \<Rightarrow> 'p option) \<Rightarrow> 'p \<Rightarrow> ('p, 's) handler_func \<Rightarrow> 's http_handler" where
  "Handle unmarshal zero h r s =
     (case respondIfBadMethod r of
        Some blocked \<Rightarrow> (blocked, s)
      | None \<Rightarrow>
          (case (case Body r of
                   BufferedBody b \<Rightarrow> Inr (b, r)
                 | RawBody d e \<Rightarrow>
                     (case ReadFrom (d, e) of
                        (rb, Some x) \<Rightarrow> Inl (respondError errReadingBody)
                      | (rb, None) \<Rightarrow>
                          Inr (rb, r\<lparr>Body := body_consumed (length rb) (Body r)\<rparr>))) of
             Inl resp \<Rightarrow> (resp, s)
           | Inr (rbody, r') \<Rightarrow>
               (case (if length rbody > 0 then
                        (if Header_Get (Header r) ''Content-Type'' \<noteq> ''application/json''
                         then Inl (respondError errInvalidBodyType)
                         else (case unmarshal rbody of
                                 None \<Rightarrow> Inl (respondError errInvalidBody)
                               | Some p \<Rightarrow> Inr p))
                      else Inr zero) of
                  Inl resp \<Rightarrow> (resp, s)
                | Inr params \<Rightarrow>
                    (case h r' params s of
                       ((code, b), s') \<Rightarrow> (respond code b, s')))))"

text \<open>
  \<^verbatim>\<open>WithLimitedBodyBuffer\<close>: the body is read through \<^verbatim>\<open>http.MaxBytesReader\<close>; the type
  switch sends a \<^verbatim>\<open>*http.MaxBytesError\<close> to 413 and any other read error to 500; the
  wrapped handler gets the request with the buffered body.
\<close>

definition WithLimitedBodyBuffer :: "int \<Rightarrow> 's http_handler \<Rightarrow> 's http_handler" where
  "WithLimitedBodyBuffer limit handle r s =
     (case respondIfBadMethod r of
        Some blocked \<Rightarrow> (blocked, s)
      | None \<Rightarrow>
          (case ReadFrom (MaxBytesReader limit (body_reader (Body r))) of
             (rbody, Some (MaxBytesError n)) \<Rightarrow> (respondError errBodyTooLarge, s)
           | (rbody, Some e) \<Rightarrow> (respondError errReadingBody, s)
           | (rbody, None) \<Rightarrow> handle (r\<lparr>Body := BufferedBody rbody\<rparr>) s))"

section \<open>Earlier single-stage handlers of package rpc\<close>




section \<open>Cross-origin protection (net/http)\<close>

definition errCrossOriginRequest :: go_error where
  "errCrossOriginRequest = ErrorString ''cross-origin request detected from Sec-Fetch-Site header''"

definition errCrossOriginRequestFromOldBrowser :: go_error where
  "errCrossOriginRequestFromOldBrowser =
     ErrorString (''cross-origin request detected, and/or browser is out of date: '' @
                  ''Sec-Fetch-Site is missing, and Origin does not match Host'')"

text \<open>
  \<^verbatim>\<open>(*http.CrossOriginProtection).Check\<close> for the value made by
  \<^verbatim>\<open>http.NewCrossOriginProtection()\<close>, which has no trusted origin and no bypass pattern,
  so that no request is exempt. \<open>url_host origin\<close> is the \<^verbatim>\<open>Host\<close> of
  \<^verbatim>\<open>url.Parse(origin)\<close>, and \<open>None\<close> when parsing fails.
\<close>

definition csrf_Check :: "(string \<Rightarrow> string option) \<Rightarrow> request \<Rightarrow> go_error option" where
  "csrf_Check url_host req =
     (if Method req = ''GET'' \<or> Method req = ''HEAD'' \<or> Method req = ''OPTIONS'' then None
      else if Header_Get (Header req) ''Sec-Fetch-Site'' = ''same-origin''
            \<or> Header_Get (Header req) ''Sec-Fetch-Site'' = ''none'' then None
      else if Header_Get (Header req) ''Sec-Fetch-Site'' \<noteq> [] then Some errCrossOriginRequest
      else if Header_Get (Header req) ''Origin'' = [] then None
      else if url_host (Header_Get (Header req) ''Origin'') = Some (Host req) then None
      else Some errCrossOriginRequestFromOldBrowser)"

text \<open>\<^verbatim>\<open>http.Error(w, msg, code)\<close>.\<close>

definition http_Error :: "string \<Rightarrow> int \<Rightarrow> response" where
  "http_Error msg code =
     \<lparr>status = code,
      headers = [(''Content-Type'', ''text/plain; charset=utf-8''),
                 (''X-Content-Type-Options'', ''nosniff'')],
      body = TextBody (msg @ [CHR 0x0A])\<rparr>"

text \<open>\<^verbatim>\<open>(*http.CrossOriginProtection).Handler\<close>, with no deny handler set.\<close>

definition csrf_Handler :: "(string \<Rightarrow> string option) \<Rightarrow> 's http_handler \<Rightarrow> 's http_handler" where
  "csrf_Handler url_host h r s =
     (case csrf_Check url_host r of
        Some err \<Rightarrow> (http_Error (go_Error err) StatusForbidden, s)
      | None \<Rightarrow> h r s)"

section \<open>Package api (internal/api/api.go)\<close>

text \<open>The handlers' calls of the logger (\<^verbatim>\<open>slog.Info\<close>) are left out.\<close>

text \<open>
  \<^verbatim>\<open>websocketUpgrader.CheckOrigin\<close>: the request is cloned, the clone's method is set to
  POST, and the clone is checked.
\<close>

definition websocketUpgrader_CheckOrigin :: "(string \<Rightarrow> string option) \<Rightarrow> request \<Rightarrow> bool" where
  "websocketUpgrader_CheckOrigin url_host r = (csrf_Check url_host (r\<lparr>Method := MethodPost\<rparr>) = None)"

text \<open>A channel of the catalog (the fields that the specification's data model names).\<close>

record channel =
  Name :: string
  frequency_hz :: nat
  modulation :: string
  program_id :: nat

text \<open>
  Modelled from the spec: \<^verbatim>\<open>(*tuner.Tuner).ChannelNames\<close> belongs to the package
  internal/atsc/tuner, which is not among the sources. The specification describes it as the
  finite ordered sequence of the names of the catalog's channels, in insertion order.
\<close>

definition Tuner_ChannelNames :: "channel list \<Rightarrow> string list" where
  "Tuner_ChannelNames catalog = map Name catalog"

text \<open>
  The tuner as the API sees it: its catalog, and the operations \<^verbatim>\<open>Tune\<close> and \<^verbatim>\<open>Stop\<close>
  of the same absent package, taken as parameters. Each returns its error (\<open>None\<close> for
  \<^verbatim>\<open>nil\<close>) and the new state of the tuner.
\<close>

record 's Tuner =
  catalog :: "channel list"
  Tune :: "string \<Rightarrow> 's \<Rightarrow> go_error option \<times> 's"
  Stop :: "'s \<Rightarrow> go_error option \<times> 's"

text \<open>
  \<^verbatim>\<open>slices.Collect\<close> appends the sequence to a nil slice: the result of an empty sequence
  is the nil slice (\<open>None\<close>). \<^verbatim>\<open>encoding/json\<close> writes a nil slice as \<^verbatim>\<open>null\<close> and any
  other slice of strings as an array.
\<close>

definition slices_Collect :: "'a list \<Rightarrow> 'a list option" where
  "slices_Collect xs = (if xs = [] then None else Some xs)"

definition json_of_strings :: "string list option \<Rightarrow> json" where
  "json_of_strings v = (case v of None \<Rightarrow> JNull | Some xs \<Rightarrow> JArray (map JString xs))"

definition handleConfigChannels :: "'s Tuner \<Rightarrow> 's http_handler" where
  "handleConfigChannels t r s =
     (\<lparr>status = StatusOK, headers = [(''Content-Type'', ''application/json'')],
       body = JsonBody (json_of_strings (slices_Collect (Tuner_ChannelNames (catalog t))))\<rparr>, s)"

definition rpcStop :: "'s Tuner \<Rightarrow> (unit, 's) handler_func" where
  "rpcStop t r u s =
     (case Stop t s of
        (Some err, s') \<Rightarrow> ((StatusInternalServerError, BodyError err), s')
      | (None, s') \<Rightarrow> ((StatusNoContent, BodyNil), s'))"

record tune_params =
  ChannelName :: string

definition rpcTune :: "'s Tuner \<Rightarrow> (tune_params, 's) handler_func" where
  "rpcTune t r params s =
     (if ChannelName params = []
      then ((StatusBadRequest, BodyError (ErrorString ''channel name required'')), s)
      else
        (case Tune t (ChannelName params) s of
           (Some err, s') \<Rightarrow>
             (if errors_Is_ErrChannelNotFound err then ((StatusBadRequest, BodyError err), s')
              else ((StatusInternalServerError, BodyError err), s'))
         | (None, s') \<Rightarrow> ((StatusNoContent, BodyNil), s')))"

text \<open>
  What the handlers take from libraries: \<^verbatim>\<open>url.Parse\<close> (see \<open>csrf_Check\<close>),
  \<^verbatim>\<open>json.Unmarshal\<close> into the two parameter types, and two functions of the WebSocket
  library: \<^verbatim>\<open>tokenListContainsValue(header, name, value)\<close>, which looks for a token in a
  header that holds a list of them, and \<^verbatim>\<open>isValidChallengeKey\<close>.
\<close>

record library =
  url_host :: "string \<Rightarrow> string option"
  unmarshal_stop :: "string \<Rightarrow> unit option"
  unmarshal_tune :: "string \<Rightarrow> tune_params option"
  tokenListContainsValue :: "(string \<times> string) list \<Rightarrow> string \<Rightarrow> string \<Rightarrow> bool"
  isValidChallengeKey :: "string \<Rightarrow> bool"

text \<open>
  What the two socket handlers do with an upgraded connection (the session of a WebRTC peer
  and the session of a status subscriber), as the change of the state it makes.
\<close>

record 's sockets =
  webrtcPeerSession :: "request \<Rightarrow> 's \<Rightarrow> 's"
  tunerStatusSession :: "request \<Rightarrow> 's \<Rightarrow> 's"

abbreviation StatusSwitchingProtocols :: int where "StatusSwitchingProtocols \<equiv> 101"

text \<open>\<^verbatim>\<open>http.StatusText\<close>, for the codes that the upgrader answers.\<close>

definition http_StatusText :: "int \<Rightarrow> string" where
  "http_StatusText code =
     (if code = StatusBadRequest then ''Bad Request''
      else if code = StatusForbidden then ''Forbidden''
      else if code = StatusMethodNotAllowed then ''Method Not Allowed''
      else [])"

text \<open>
  \<^verbatim>\<open>(*websocket.Upgrader).returnError\<close> for an upgrader without an \<^verbatim>\<open>Error\<close> hook: the
  version header is set and the status text is written with \<^verbatim>\<open>http.Error\<close>.
\<close>

definition Upgrader_returnError :: "int \<Rightarrow> response" where
  "Upgrader_returnError code =
     \<lparr>status = code,
      headers = (''Sec-Websocket-Version'', ''13'') # headers (http_Error (http_StatusText code) code),
      body = body (http_Error (http_StatusText code) code)\<rparr>"

text \<open>
  \<^verbatim>\<open>(*websocket.Upgrader).Upgrade\<close> of github.com/gorilla/websocket, called without
  response headers on an upgrader with the hook \<open>CheckOrigin\<close>. The checks are made in this
  order, and the first that fails answers the request; the result is that answer, or \<open>None\<close>
  for an upgraded connection (the server's connections can be hijacked).
\<close>

definition Upgrader_Upgrade :: "library \<Rightarrow> (request \<Rightarrow> bool) \<Rightarrow> request \<Rightarrow> response option" where
  "Upgrader_Upgrade lib CheckOrigin r =
     (if \<not> tokenListContainsValue lib (Header r) ''Connection'' ''upgrade''
        then Some (Upgrader_returnError StatusBadRequest)
      else if \<not> tokenListContainsValue lib (Header r) ''Upgrade'' ''websocket''
        then Some (Upgrader_returnError StatusBadRequest)
      else if Method r \<noteq> ''GET'' then Some (Upgrader_returnError StatusMethodNotAllowed)
      else if \<not> tokenListContainsValue lib (Header r) ''Sec-Websocket-Version'' ''13''
        then Some (Upgrader_returnError StatusBadRequest)
      else if \<not> CheckOrigin r then Some (Upgrader_returnError StatusForbidden)
      else if \<not> isValidChallengeKey lib (Header_Get (Header r) ''Sec-Websocket-Key'')
        then Some (Upgrader_returnError StatusBadRequest)
      else None)"

text \<open>The answer that the upgrader writes on the connection it has taken over.\<close>

definition switching_protocols :: response where
  "switching_protocols =
     \<lparr>status = StatusSwitchingProtocols,
      headers = [(''Upgrade'', ''websocket''), (''Connection'', ''Upgrade'')], body = NoBody\<rparr>"

text \<open>
  Modelled from the spec: \<^verbatim>\<open>handleSocketWebRTCPeer\<close> is defined in a file of package api
  that is not among the sources. The specification has the route open a WebSocket whose
  upgrade is gated by the same-origin check, and api.go declares \<^verbatim>\<open>websocketUpgrader\<close>
  for it. The handler upgrades the connection with that upgrader, returns when the upgrade is
  refused, and runs its session otherwise.
\<close>

definition handleSocketWebRTCPeer :: "library \<Rightarrow> 's sockets \<Rightarrow> 's http_handler" where
  "handleSocketWebRTCPeer lib socks r s =
     (case Upgrader_Upgrade lib (websocketUpgrader_CheckOrigin (url_host lib)) r of
        Some refused \<Rightarrow> (refused, s)
      | None \<Rightarrow> (switching_protocols, webrtcPeerSession socks r s))"

text \<open>
  Modelled from the spec: \<^verbatim>\<open>handleSocketTunerStatus\<close> is defined in a file of package api
  that is not among the sources either, and is taken to use the upgrader in the same way.
\<close>

definition handleSocketTunerStatus :: "library \<Rightarrow> 's sockets \<Rightarrow> 's http_handler" where
  "handleSocketTunerStatus lib socks r s =
     (case Upgrader_Upgrade lib (websocketUpgrader_CheckOrigin (url_host lib)) r of
        Some refused \<Rightarrow> (refused, s)
      | None \<Rightarrow> (switching_protocols, tunerStatusSession socks r s))"

text \<open>
  A request passes the checks that the upgrader makes apart from the origin's: it is a
  WebSocket handshake.
\<close>

definition websocket_handshake :: "library \<Rightarrow> request \<Rightarrow> bool" where
  "websocket_handshake lib r \<longleftrightarrow>
     tokenListContainsValue lib (Header r) ''Connection'' ''upgrade''
     \<and> tokenListContainsValue lib (Header r) ''Upgrade'' ''websocket''
     \<and> Method r = ''GET''
     \<and> tokenListContainsValue lib (Header r) ''Sec-Websocket-Version'' ''13''
     \<and> isValidChallengeKey lib (Header_Get (Header r) ''Sec-Websocket-Key'')"

text \<open>
  The routes of \<^verbatim>\<open>rpcMux\<close>. An \<^verbatim>\<open>http.ServeMux\<close> answers a path without a matching
  pattern with \<^verbatim>\<open>http.NotFound\<close>. Request paths are taken in their canonical form (a mux
  redirects the others).
\<close>

definition rpcMux :: "library \<Rightarrow> 's Tuner \<Rightarrow> 's http_handler" where
  "rpcMux lib t r s =
     (if Path r = ''/api/rpc/stop'' then Handle (unmarshal_stop lib) () (rpcStop t) r s
      else if Path r = ''/api/rpc/tune''
        then Handle (unmarshal_tune lib) \<lparr>ChannelName = []\<rparr> (rpcTune t) r s
      else (http_Error ''404 page not found'' StatusNotFound, s))"

text \<open>
  \<^verbatim>\<open>(*Handler).ServeHTTP\<close> with the routes that \<^verbatim>\<open>NewHandler\<close> registers. The pattern
  with a method matches GET and HEAD, and the mux answers other methods on that path with 405.
\<close>

definition api_Handler_ServeHTTP ::
  "library \<Rightarrow> 's sockets \<Rightarrow> 's Tuner \<Rightarrow> 's http_handler" where
  "api_Handler_ServeHTTP lib socks t r s =
     (if Path r = ''/api/config/channels'' then
        (if Method r = ''GET'' \<or> Method r = ''HEAD'' then handleConfigChannels t r s
         else (\<lparr>status = StatusMethodNotAllowed,
                 headers = [(''Allow'', ''GET, HEAD''),
                            (''Content-Type'', ''text/plain; charset=utf-8''),
                            (''X-Content-Type-Options'', ''nosniff'')],
                 body = TextBody (''Method Not Allowed'' @ [CHR 0x0A])\<rparr>, s))
      else if take 9 (Path r) = ''/api/rpc/'' then
        csrf_Handler (url_host lib) (WithLimitedBodyBuffer 1024 (rpcMux lib t)) r s
      else if Path r = ''/api/socket/webrtc-peer'' then handleSocketWebRTCPeer lib socks r s
      else if Path r = ''/api/socket/tuner-status'' then handleSocketTunerStatus lib socks r s
      else (http_Error ''404 page not found'' StatusNotFound, s))"

section \<open>The server's main function (cmd/hypcast-server/main.go)\<close>

text \<open>The signals that \<^verbatim>\<open>signal.Notify\<close> registers, and the case that \<^verbatim>\<open>select\<close> takes.\<close>

datatype signal = Interrupt | SIGTERM

datatype selected = ServerErr go_error | Signalled signal

text \<open>
  The calls on the server, the tuner and the logger that matter for start-up and shutdown.
  \<open>Server_Shutdown n\<close> is \<^verbatim>\<open>server.Shutdown\<close> with a context that times out after \<open>n\<close>
  seconds; \<open>Tuner_Stop\<close> is \<^verbatim>\<open>tuner.Stop()\<close>.
\<close>

datatype call =
    Log_Error string
  | Log_Info string
  | NewTuner "channel list"
  | Http_Handle string
  | ListenAndServe string
  | Signal_Notify "signal list"
  | Server_Shutdown nat
  | Context_Cancel
  | Tuner_Stop

text \<open>
  The inputs of one run: the result of \<^verbatim>\<open>readChannelsConf\<close>, the flags, whether client
  assets are embedded, and the case that \<^verbatim>\<open>select\<close> takes.
\<close>

record run =
  readChannelsConf :: "go_error + channel list"
  flagAddr :: string
  flagAssets :: string
  client_Build :: bool
  select :: selected

text \<open>The calls of \<^verbatim>\<open>main\<close> from the creation of the tuner up to the \<^verbatim>\<open>select\<close> statement.\<close>

definition main_startup :: "run \<Rightarrow> channel list \<Rightarrow> call list" where
  "main_startup env chans =
     [NewTuner chans, Http_Handle ''/api/''] @
     (if flagAssets env \<noteq> [] then [Http_Handle ''/'']
      else if client_Build env then [Http_Handle ''/''] else []) @
     [Log_Info ''Starting Hypcast server'', ListenAndServe (flagAddr env),
      Signal_Notify [Interrupt, SIGTERM]]"

text \<open>
  \<^verbatim>\<open>main\<close>, as the calls it makes in order and the exit code of the process: 1 where it
  calls \<^verbatim>\<open>os.Exit(1)\<close>, 0 where it returns.
\<close>

definition main :: "run \<Rightarrow> call list \<times> int" where
  "main env =
     (case readChannelsConf env of
        Inl err \<Rightarrow> ([Log_Error ''Failed to load channels''], 1)
      | Inr chans \<Rightarrow>
          (case select env of
             ServerErr err \<Rightarrow>
               (main_startup env chans @ [Log_Error ''Failed to run Hypcast server''], 1)
           | Signalled sg \<Rightarrow>
               (main_startup env chans @
                [Log_Info ''Shutting down'', Server_Shutdown 5, Context_Cancel], 0)))"

section \<open>Observing invocations\<close>

text \<open>
  To state that a handler function or a tuner operation is or is not invoked, it is run
  with a log beside the state: every invocation appends its argument to the log.
\<close>

definition logged :: "('p, 's) handler_func \<Rightarrow> ('p, 'p list \<times> 's) handler_func" where
  "logged h r p ls = (case h r p (snd ls) of (res, s') \<Rightarrow> (res, (fst ls @ [p], s')))"

datatype tuner_call = Called_Tune string | Called_Stop

definition logged_Tuner :: "'s Tuner \<Rightarrow> (tuner_call list \<times> 's) Tuner" where
  "logged_Tuner t =
     \<lparr>catalog = catalog t,
      Tune = (\<lambda>n ls. case Tune t n (snd ls) of (e, s') \<Rightarrow> (e, (fst ls @ [Called_Tune n], s'))),
      Stop = (\<lambda>ls. case Stop t (snd ls) of (e, s') \<Rightarrow> (e, (fst ls @ [Called_Stop], s')))\<rparr>"

section \<open>Concrete inputs\<close>

text \<open>
  A tuner with a catalog of two channels, whose \<^verbatim>\<open>Tune\<close> fails with
  \<^verbatim>\<open>ErrChannelNotFound\<close> outside the catalog and whose \<^verbatim>\<open>Stop\<close> succeeds; the state
  counts the operations performed.
\<close>

definition sample_tuner :: "nat Tuner" where
  "sample_tuner =
     \<lparr>catalog = [\<lparr>Name = ''ABC'', frequency_hz = 533000000, modulation = ''8VSB'', program_id = 3\<rparr>,
                 \<lparr>Name = ''NBC'', frequency_hz = 569000000, modulation = ''8VSB'', program_id = 1\<rparr>],
      Tune = (\<lambda>n s. if n = ''ABC'' \<or> n = ''NBC'' then (None, Suc s) else (Some ErrChannelNotFound, s)),
      Stop = (\<lambda>s. (None, Suc s))\<rparr>"

text \<open>
  A \<^verbatim>\<open>url.Parse\<close> that knows the server's own origin, decoders that know a few bodies,
  a token search that knows the headers with a single token in lower case, and a check of the
  challenge key that knows the key of RFC 6455.
\<close>

definition sample_library :: library where
  \<open>sample_library =
     \<lparr>url_host = (\<lambda>origin. if origin = ''http://tv.local:9200'' then Some ''tv.local:9200'' else None),
      unmarshal_stop = (\<lambda>b. if b = ''{}'' then Some () else None),
      unmarshal_tune =
        (\<lambda>b. if b = ''{}'' then Some \<lparr>ChannelName = []\<rparr>
             else if b = ''{"ChannelName":"ABC"}'' then Some \<lparr>ChannelName = ''ABC''\<rparr>
             else if b = ''{"ChannelName":"XYZ"}'' then Some \<lparr>ChannelName = ''XYZ''\<rparr>
             else None),
      tokenListContainsValue = (\<lambda>h name v. Header_Get h name = v),
      isValidChallengeKey = (\<lambda>k. k = ''dGhlIHNhbXBsZSBub25jZQ=='')\<rparr>\<close>

text \<open>Sessions that leave the state alone, and sessions that count themselves in it.\<close>

definition sample_sockets :: "'s sockets" where
  "sample_sockets = \<lparr>webrtcPeerSession = (\<lambda>r s. s), tunerStatusSession = (\<lambda>r s. s)\<rparr>"

definition counting_sockets :: "nat sockets" where
  "counting_sockets = \<lparr>webrtcPeerSession = (\<lambda>r s. Suc s), tunerStatusSession = (\<lambda>r s. Suc s)\<rparr>"

definition sample_request :: "string \<Rightarrow> string \<Rightarrow> (string \<times> string) list \<Rightarrow> string \<Rightarrow> request" where
  "sample_request m p h b =
     \<lparr>Method = m, Path = p, Host = ''tv.local:9200'', Header = h, Body = RawBody b None\<rparr>"

text \<open>A handler function that ignores its request: 200 with the decoded flag as the body.\<close>

definition sample_handler :: "(bool, nat) handler_func" where
  "sample_handler =
     (\<lambda>r p s. ((StatusOK, BodyValue (JString (if p then ''on'' else ''off''))), Suc s))"

definition sample_unmarshal :: "string \<Rightarrow> bool option" where
  "sample_unmarshal b = (if b = ''true'' then Some True else if b = ''false'' then Some False else None)"

text \<open>A handler function that reads the body of the request it is given.\<close>

definition body_length_handler :: "(bool, nat) handler_func" where
  "body_length_handler =
     (\<lambda>r p s. ((StatusOK,
                 BodyValue (JString (replicate (length (fst (body_reader (Body r)))) CHR ''x''))), s))"

definition sample_run :: run where
  "sample_run =
     \<lparr>readChannelsConf = Inr (catalog sample_tuner), flagAddr = '':9200'', flagAssets = [],
      client_Build = True, select = Signalled SIGTERM\<rparr>"

text \<open>Request bodies, and the requests of the concrete checks.\<close>

definition body_tune_XYZ :: string where
  \<open>body_tune_XYZ = ''{"ChannelName":"XYZ"}''\<close>

definition json_header :: "(string \<times> string) list" where
  "json_header = [(''Content-Type'', ''application/json'')]"

definition cross_site_header :: "(string \<times> string) list" where
  "cross_site_header = [(''Sec-Fetch-Site'', ''cross-site'')]"

definition cross_site_json_header :: "(string \<times> string) list" where
  "cross_site_json_header =
     [(''Content-Type'', ''application/json''), (''Sec-Fetch-Site'', ''cross-site'')]"

definition body_tune_ABC :: string where
  \<open>body_tune_ABC = ''{"ChannelName":"ABC"}''\<close>

text \<open>The headers of a WebSocket handshake that a page of another site, or of this one, starts.\<close>

definition cross_site_upgrade_header :: "(string \<times> string) list" where
  "cross_site_upgrade_header =
     [(''Connection'', ''upgrade''), (''Upgrade'', ''websocket''),
      (''Sec-Websocket-Version'', ''13''), (''Sec-Websocket-Key'', ''dGhlIHNhbXBsZSBub25jZQ==''),
      (''Sec-Fetch-Site'', ''cross-site''), (''Origin'', ''http://other.example'')]"

definition same_origin_upgrade_header :: "(string \<times> string) list" where
  "same_origin_upgrade_header =
     [(''Connection'', ''upgrade''), (''Upgrade'', ''websocket''),
      (''Sec-Websocket-Version'', ''13''), (''Sec-Websocket-Key'', ''dGhlIHNhbXBsZSBub25jZQ==''),
      (''Sec-Fetch-Site'', ''same-origin''), (''Origin'', ''http://tv.local:9200'')]"

definition oversized_body :: string where
  "oversized_body = replicate 1025 CHR ''a''"

text \<open>A POST whose body fails at the first read.\<close>

definition failing_request :: request where
  "failing_request =
     \<lparr>Method = ''POST'', Path = ''/'', Host = ''tv.local:9200'', Header = [],
      Body = RawBody [] (Some (ErrorString ''unexpected EOF''))\<rparr>"

section \<open>Lemmas on the RPC framework\<close>

lemmas rpc_defs = respondIfBadMethod_def respond_def respondError_def errorHTTPCode_def
  errReadingBody_def errBodyTooLarge_def errInvalidBodyType_def errInvalidBody_def ReadFrom_def

lemmas sample_defs = sample_request_def sample_library_def sample_tuner_def sample_handler_def
  sample_unmarshal_def body_length_handler_def json_header_def cross_site_header_def
  body_tune_XYZ_def body_tune_ABC_def cross_site_json_header_def Header_Get_def

lemma Body_update_same: "Body r = b \<Longrightarrow> r\<lparr>Body := b\<rparr> = r"
  by (cases r) simp

text \<open>The four errors of the framework, as the responses that \<open>respondError\<close> writes.\<close>

lemma respondError_framework:
  "respondError errInvalidBodyType =
     \<lparr>status = StatusUnsupportedMediaType, headers = [(''Content-Type'', ''application/json'')],
      body = JsonBody (JObject [(''Error'', JString ''must have Content-Type: application/json'')])\<rparr>"
  "respondError errInvalidBody =
     \<lparr>status = StatusBadRequest, headers = [(''Content-Type'', ''application/json'')],
      body = JsonBody (JObject [(''Error'', JString ''unable to decode RPC body'')])\<rparr>"
  "respondError errBodyTooLarge =
     \<lparr>status = StatusRequestEntityTooLarge, headers = [(''Content-Type'', ''application/json'')],
      body = JsonBody (JObject [(''Error'', JString ''RPC body exceeded maximum size'')])\<rparr>"
  "respondError errReadingBody =
     \<lparr>status = StatusInternalServerError, headers = [(''Content-Type'', ''application/json'')],
      body = JsonBody (JObject [(''Error'', JString ''unable to read RPC body'')])\<rparr>"
  by (simp_all add: rpc_defs)

text \<open>A body within the limit is handed on in the buffer; a longer one is refused.\<close>

lemma WithLimitedBodyBuffer_within:
  assumes "Method r = MethodPost" and "body_reader (Body r) = (d, None)"
    and "int (length d) \<le> limit"
  shows "WithLimitedBodyBuffer limit inner r s = inner (r\<lparr>Body := BufferedBody d\<rparr>) s"
  using assms
  by (simp add: WithLimitedBodyBuffer_def respondIfBadMethod_def ReadFrom_def MaxBytesReader_def
      Let_def)

lemma WithLimitedBodyBuffer_too_large:
  assumes "Method r = MethodPost" and "body_reader (Body r) = (d, e)"
    and "int (length d) > limit" and "int (length d) > 0"
  shows "WithLimitedBodyBuffer limit inner r s = (respondError errBodyTooLarge, s)"
  using assms
  by (simp add: WithLimitedBodyBuffer_def respondIfBadMethod_def ReadFrom_def MaxBytesReader_def
      Let_def)

text \<open>The handler on a buffered body: the checks in their order.\<close>

lemma Handle_buffered:
  assumes "Method r = MethodPost" and "Body r = BufferedBody d"
  shows "Handle unmarshal zero h r s =
     (if d \<noteq> [] \<and> Header_Get (Header r) ''Content-Type'' \<noteq> ''application/json''
        then (respondError errInvalidBodyType, s)
      else if d \<noteq> [] \<and> unmarshal d = None then (respondError errInvalidBody, s)
      else (case h r (if d = [] then zero else the (unmarshal d)) s of
              ((code, b), s') \<Rightarrow> (respond code b, s')))"
  using assms by (auto simp add: Handle_def respondIfBadMethod_def split: option.splits)

text \<open>On a buffered body the method form and the function form of the handler agree.\<close>

lemma Handler_ServeHTTP_buffered:
  assumes "Body r = BufferedBody d"
  shows "Handler_ServeHTTP unmarshal zero h r s = Handle unmarshal zero h r s"
  using assms by (auto simp add: Handle_def Handler_ServeHTTP_def split: option.splits)

lemma api_rpc_route:
  assumes "take 9 (Path r) = ''/api/rpc/''"
  shows "api_Handler_ServeHTTP lib socks t r s =
           csrf_Handler (url_host lib) (WithLimitedBodyBuffer 1024 (rpcMux lib t)) r s"
proof -
  have "Path r \<noteq> ''/api/config/channels''" using assms by auto
  then show ?thesis using assms by (simp add: api_Handler_ServeHTTP_def)
qed

lemma rpcTune_buffered:
  assumes "Method r = MethodPost" and "Path r = ''/api/rpc/tune''" and "Body r = BufferedBody d"
  shows "rpcMux lib t r s =
     (if d \<noteq> [] \<and> Header_Get (Header r) ''Content-Type'' \<noteq> ''application/json''
        then (respondError errInvalidBodyType, s)
      else if d \<noteq> [] \<and> unmarshal_tune lib d = None then (respondError errInvalidBody, s)
      else (case rpcTune t r (if d = [] then \<lparr>ChannelName = []\<rparr> else the (unmarshal_tune lib d)) s of
              ((code, b), s') \<Rightarrow> (respond code b, s')))"
  using assms(2) by (simp add: rpcMux_def Handle_buffered [OF assms(1,3)])


text \<open>The channel list of a catalog that is not empty is the array of its names, in order.\<close>

lemma handleConfigChannels_names:
  assumes "catalog t \<noteq> []"
  shows "handleConfigChannels t r s =
     (\<lparr>status = StatusOK, headers = [(''Content-Type'', ''application/json'')],
       body = JsonBody (JArray (map (\<lambda>c. JString (Name c)) (catalog t)))\<rparr>, s)"
  using assms
  by (simp add: handleConfigChannels_def Tuner_ChannelNames_def slices_Collect_def
      json_of_strings_def comp_def)

lemma handleConfigChannels_sample:
  "handleConfigChannels sample_tuner r s =
     (\<lparr>status = StatusOK, headers = [(''Content-Type'', ''application/json'')],
       body = JsonBody (JArray [JString ''ABC'', JString ''NBC''])\<rparr>, s)"
  by (simp add: handleConfigChannels_def Tuner_ChannelNames_def slices_Collect_def
      json_of_strings_def sample_tuner_def)

subsection \<open>The three versions of the handler, on a body that is read without error\<close>





subsection \<open>The routes of the API and the results of the framework\<close>

lemma api_rpc_refused:
  assumes "take 9 (Path r) = ''/api/rpc/''" and "csrf_Check (url_host lib) r = Some err"
  shows "api_Handler_ServeHTTP lib socks t r s = (http_Error (go_Error err) StatusForbidden, s)"
  using assms(2) by (simp add: api_rpc_route [OF assms(1)] csrf_Handler_def)

lemma api_socket_routes:
  "Path r = ''/api/socket/webrtc-peer'' \<Longrightarrow>
     api_Handler_ServeHTTP lib socks t r s = handleSocketWebRTCPeer lib socks r s"
  "Path r = ''/api/socket/tuner-status'' \<Longrightarrow>
     api_Handler_ServeHTTP lib socks t r s = handleSocketTunerStatus lib socks r s"
  by (simp_all add: api_Handler_ServeHTTP_def)

lemma CheckOrigin_headers:
  "websocketUpgrader_CheckOrigin uh r \<longleftrightarrow>
     Header_Get (Header r) ''Sec-Fetch-Site'' = ''same-origin''
     \<or> Header_Get (Header r) ''Sec-Fetch-Site'' = ''none''
     \<or> Header_Get (Header r) ''Sec-Fetch-Site'' = []
        \<and> (Header_Get (Header r) ''Origin'' = []
            \<or> uh (Header_Get (Header r) ''Origin'') = Some (Host r))"
  by (auto simp add: websocketUpgrader_CheckOrigin_def csrf_Check_def)

lemma Upgrader_Upgrade_cases:
  "Upgrader_Upgrade lib check r = None \<longleftrightarrow> websocket_handshake lib r \<and> check r"
  "websocket_handshake lib r \<Longrightarrow> \<not> check r \<Longrightarrow>
     Upgrader_Upgrade lib check r = Some (Upgrader_returnError StatusForbidden)"
  "Upgrader_Upgrade lib check r = Some refused \<Longrightarrow> status refused \<noteq> StatusSwitchingProtocols"
  by (auto simp add: Upgrader_Upgrade_def websocket_handshake_def Upgrader_returnError_def
      split: if_splits)

lemma respond_cases:
  "respond code b =
     (case b of
        BodyNil \<Rightarrow> \<lparr>status = code, headers = [], body = NoBody\<rparr>
      | BodyError err \<Rightarrow>
          \<lparr>status = code, headers = [(''Content-Type'', ''application/json'')],
           body = JsonBody (JObject [(''Error'', JString (go_Error err))])\<rparr>
      | BodyValue j \<Rightarrow>
          \<lparr>status = code, headers = [(''Content-Type'', ''application/json'')],
           body = JsonBody j\<rparr>)"
  by (simp add: respond_def split: body_any.splits)

lemma handler_result_composed:
  assumes "Method r = MethodPost" and "body_reader (Body r) = (d, None)"
    and "int (length d) \<le> limit"
    and "d = [] \<and> p = zero
         \<or> d \<noteq> [] \<and> Header_Get (Header r) ''Content-Type'' = ''application/json''
            \<and> unmarshal d = Some p"
    and "h (r\<lparr>Body := BufferedBody d\<rparr>) p s = ((code, b), s')"
  shows "WithLimitedBodyBuffer limit (Handle unmarshal zero h) r s = (respond code b, s')"
    and "WithLimitedBodyBuffer limit (Handler_ServeHTTP unmarshal zero h) r s = (respond code b, s')"
proof -
  let ?r = "r\<lparr>Body := BufferedBody d\<rparr>"
  have post: "Method ?r = MethodPost" and buf: "Body ?r = BufferedBody d"
    using assms(1) by simp_all
  show "WithLimitedBodyBuffer limit (Handle unmarshal zero h) r s = (respond code b, s')"
    using assms(4,5)
    by (auto simp add: WithLimitedBodyBuffer_within [OF assms(1,2,3)] Handle_buffered [OF post buf])
  then show "WithLimitedBodyBuffer limit (Handler_ServeHTTP unmarshal zero h) r s = (respond code b, s')"
    by (simp add: WithLimitedBodyBuffer_within [OF assms(1,2,3)] Handler_ServeHTTP_buffered [OF buf])
qed

lemma handler_result_direct:
  assumes "Method r = MethodPost" and "Body r = RawBody d None"
    and "d = [] \<and> p = zero
         \<or> d \<noteq> [] \<and> Header_Get (Header r) ''Content-Type'' = ''application/json''
            \<and> unmarshal d = Some p"
    and "h (r\<lparr>Body := RawBody [] None\<rparr>) p s = ((code, b), s')"
  shows "Handle unmarshal zero h r s = (respond code b, s')"
    and "Handler_ServeHTTP unmarshal zero h r s = (respond code b, s')"
  using assms
  by (auto simp add: Handle_def Handler_ServeHTTP_def respondIfBadMethod_def ReadFrom_def)

lemma validation_errors_composed:
  assumes "Method r = MethodPost" and "body_reader (Body r) = (d, e)"
  shows "int (length d) > limit \<and> d \<noteq> [] \<Longrightarrow>
           WithLimitedBodyBuffer limit inner r s = (respondError errBodyTooLarge, s)"
    and "int (length d) \<le> limit \<and> e = Some x \<and> (\<forall>n. x \<noteq> MaxBytesError n) \<Longrightarrow>
           WithLimitedBodyBuffer limit inner r s = (respondError errReadingBody, s)"
proof -
  show "WithLimitedBodyBuffer limit inner r s = (respondError errBodyTooLarge, s)"
    if "int (length d) > limit \<and> d \<noteq> []"
    using that by (intro WithLimitedBodyBuffer_too_large [OF assms]) auto
  show "WithLimitedBodyBuffer limit inner r s = (respondError errReadingBody, s)"
    if "int (length d) \<le> limit \<and> e = Some x \<and> (\<forall>n. x \<noteq> MaxBytesError n)"
    using that assms
    by (cases x)
      (simp_all add: WithLimitedBodyBuffer_def respondIfBadMethod_def ReadFrom_def
        MaxBytesReader_def)
qed

section \<open>The claims\<close>

subsection \<open>C1: the status codes of the tune call\<close>

text \<open>
  Claim C1, as amended. For every POST to /api/rpc/tune whose body passes RPC validation (it
  is read without error, has 1024 bytes or fewer, the JSON content type, and decodes) and
  carries a non-empty \<^verbatim>\<open>ChannelName\<close>: when the request passes the cross-origin check,
  \<^verbatim>\<open>Tune\<close> is invoked once with that name and the answer comes from its result, 204 without
  a body when it returns nil, 400 when the error satisfies
  \<^verbatim>\<open>errors.Is(err, tuner.ErrChannelNotFound)\<close>, and 500 for any other error, in both error
  cases with the JSON object that holds the error's message; when the request fails the
  cross-origin check it is answered with 403 and \<^verbatim>\<open>Tune\<close> is not invoked.
\<close>

theorem rpcTune_route_status:
  assumes "Path r = ''/api/rpc/tune''" and "Method r = MethodPost"
    and "body_reader (Body r) = (d, None)" and "d \<noteq> []" and "int (length d) \<le> 1024"
    and "Header_Get (Header r) ''Content-Type'' = ''application/json''"
    and "unmarshal_tune lib d = Some params" and "ChannelName params \<noteq> []"
  shows "(csrf_Check (url_host lib) r = None \<longrightarrow>
            api_Handler_ServeHTTP lib socks (logged_Tuner t) r (log, s) =
              (case Tune t (ChannelName params) s of
                 (None, s') \<Rightarrow>
                   (\<lparr>status = StatusNoContent, headers = [], body = NoBody\<rparr>,
                    (log @ [Called_Tune (ChannelName params)], s'))
               | (Some err, s') \<Rightarrow>
                   (\<lparr>status = (if errors_Is_ErrChannelNotFound err then StatusBadRequest
                                else StatusInternalServerError),
                     headers = [(''Content-Type'', ''application/json'')],
                     body = JsonBody (JObject [(''Error'', JString (go_Error err))])\<rparr>,
                    (log @ [Called_Tune (ChannelName params)], s'))))
       \<and> (csrf_Check (url_host lib) r = Some refused \<longrightarrow>
            api_Handler_ServeHTTP lib socks (logged_Tuner t) r (log, s) =
              (http_Error (go_Error refused) StatusForbidden, (log, s)))"
proof (intro conjI impI)
  assume ok: "csrf_Check (url_host lib) r = None"
  let ?r = "r\<lparr>Body := BufferedBody d\<rparr>"
  have route: "take 9 (Path r) = ''/api/rpc/''" using assms(1) by simp
  have post: "Method ?r = MethodPost" and path: "Path ?r = ''/api/rpc/tune''"
    and buf: "Body ?r = BufferedBody d"
    using assms(1,2) by simp_all
  have "api_Handler_ServeHTTP lib socks (logged_Tuner t) r (log, s) =
      rpcMux lib (logged_Tuner t) ?r (log, s)"
    by (simp add: api_rpc_route [OF route] csrf_Handler_def ok
        WithLimitedBodyBuffer_within [OF assms(2,3,5)])
  also have "\<dots> = (case rpcTune (logged_Tuner t) ?r params (log, s) of
                      ((code, b), s') \<Rightarrow> (respond code b, s'))"
    using assms(4,6,7) by (simp add: rpcTune_buffered [OF post path buf])
  finally show "api_Handler_ServeHTTP lib socks (logged_Tuner t) r (log, s) =
              (case Tune t (ChannelName params) s of
                 (None, s') \<Rightarrow>
                   (\<lparr>status = StatusNoContent, headers = [], body = NoBody\<rparr>,
                    (log @ [Called_Tune (ChannelName params)], s'))
               | (Some err, s') \<Rightarrow>
                   (\<lparr>status = (if errors_Is_ErrChannelNotFound err then StatusBadRequest
                                else StatusInternalServerError),
                     headers = [(''Content-Type'', ''application/json'')],
                     body = JsonBody (JObject [(''Error'', JString (go_Error err))])\<rparr>,
                    (log @ [Called_Tune (ChannelName params)], s')))"
    using assms(8)
    by (auto simp add: rpcTune_def respond_def logged_Tuner_def
        split: prod.splits option.splits if_splits)
next
  assume "csrf_Check (url_host lib) r = Some refused"
  then show "api_Handler_ServeHTTP lib socks (logged_Tuner t) r (log, s) =
              (http_Error (go_Error refused) StatusForbidden, (log, s))"
    using assms(1) by (intro api_rpc_refused) simp_all
qed

text \<open>
  On requests of the server's own pages: a channel outside the catalog of the sample tuner
  gives 400, not 404, and a channel of the catalog gives 204. The same body sent by a page of
  another site gives 403 and no call of the tuner.
\<close>

theorem rpcTune_route_status_witness:
  "Path (sample_request ''POST'' ''/api/rpc/tune'' json_header body_tune_XYZ) = ''/api/rpc/tune''
   \<and> Method (sample_request ''POST'' ''/api/rpc/tune'' json_header body_tune_XYZ) = MethodPost
   \<and> body_reader (Body (sample_request ''POST'' ''/api/rpc/tune'' json_header body_tune_XYZ)) =
         (body_tune_XYZ, None)
   \<and> body_tune_XYZ \<noteq> [] \<and> int (length body_tune_XYZ) \<le> 1024
   \<and> Header_Get (Header (sample_request ''POST'' ''/api/rpc/tune'' json_header body_tune_XYZ))
         ''Content-Type'' = ''application/json''
   \<and> unmarshal_tune sample_library body_tune_XYZ = Some \<lparr>ChannelName = ''XYZ''\<rparr>
   \<and> ChannelName \<lparr>ChannelName = ''XYZ''\<rparr> \<noteq> []
   \<and> csrf_Check (url_host sample_library)
         (sample_request ''POST'' ''/api/rpc/tune'' json_header body_tune_XYZ) = None
   \<and> api_Handler_ServeHTTP sample_library sample_sockets (logged_Tuner sample_tuner)
         (sample_request ''POST'' ''/api/rpc/tune'' json_header body_tune_XYZ) ([], 0) =
       (\<lparr>status = 400, headers = [(''Content-Type'', ''application/json'')],
          body = JsonBody (JObject [(''Error'', JString ''channel not found'')])\<rparr>,
        ([Called_Tune ''XYZ''], 0))
   \<and> csrf_Check (url_host sample_library)
         (sample_request ''POST'' ''/api/rpc/tune'' json_header body_tune_ABC) = None
   \<and> api_Handler_ServeHTTP sample_library sample_sockets (logged_Tuner sample_tuner)
         (sample_request ''POST'' ''/api/rpc/tune'' json_header body_tune_ABC) ([], 0) =
       (\<lparr>status = 204, headers = [], body = NoBody\<rparr>, ([Called_Tune ''ABC''], 1))
   \<and> csrf_Check (url_host sample_library)
         (sample_request ''POST'' ''/api/rpc/tune'' cross_site_json_header body_tune_ABC) =
       Some errCrossOriginRequest
   \<and> api_Handler_ServeHTTP sample_library sample_sockets (logged_Tuner sample_tuner)
         (sample_request ''POST'' ''/api/rpc/tune'' cross_site_json_header body_tune_ABC) ([], 0) =
       (http_Error ''cross-origin request detected from Sec-Fetch-Site header'' 403, ([], 0))"
proof -
  let ?r = "sample_request ''POST'' ''/api/rpc/tune'' json_header body_tune_XYZ"
  let ?q = "sample_request ''POST'' ''/api/rpc/tune'' json_header body_tune_ABC"
  let ?x = "sample_request ''POST'' ''/api/rpc/tune'' cross_site_json_header body_tune_ABC"
  have a1: "Path ?r = ''/api/rpc/tune''" and a2: "Method ?r = MethodPost"
    and a3: "body_reader (Body ?r) = (body_tune_XYZ, None)"
    and a4: "body_tune_XYZ \<noteq> []" and a5: "int (length body_tune_XYZ) \<le> 1024"
    and a6: "Header_Get (Header ?r) ''Content-Type'' = ''application/json''"
    and a7: "unmarshal_tune sample_library body_tune_XYZ = Some \<lparr>ChannelName = ''XYZ''\<rparr>"
    and a8: "ChannelName \<lparr>ChannelName = ''XYZ''\<rparr> \<noteq> []"
    and a9: "csrf_Check (url_host sample_library) ?r = None"
    by (simp_all add: sample_defs csrf_Check_def)
  have b1: "Path ?q = ''/api/rpc/tune''" and b2: "Method ?q = MethodPost"
    and b3: "body_reader (Body ?q) = (body_tune_ABC, None)"
    and b4: "body_tune_ABC \<noteq> []" and b5: "int (length body_tune_ABC) \<le> 1024"
    and b6: "Header_Get (Header ?q) ''Content-Type'' = ''application/json''"
    and b7: "unmarshal_tune sample_library body_tune_ABC = Some \<lparr>ChannelName = ''ABC''\<rparr>"
    and b8: "ChannelName \<lparr>ChannelName = ''ABC''\<rparr> \<noteq> []"
    and b9: "csrf_Check (url_host sample_library) ?q = None"
    by (simp_all add: sample_defs csrf_Check_def)
  have x1: "Path ?x = ''/api/rpc/tune''" and x2: "Method ?x = MethodPost"
    and x3: "body_reader (Body ?x) = (body_tune_ABC, None)"
    and x6: "Header_Get (Header ?x) ''Content-Type'' = ''application/json''"
    and x9: "csrf_Check (url_host sample_library) ?x = Some errCrossOriginRequest"
    by (simp_all add: sample_defs csrf_Check_def)
  note th = rpcTune_route_status [OF a1 a2 a3 a4 a5 a6 a7 a8, where t = sample_tuner
      and log = "[]" and s = 0 and socks = sample_sockets and refused = errCrossOriginRequest]
  note tq = rpcTune_route_status [OF b1 b2 b3 b4 b5 b6 b7 b8, where t = sample_tuner
      and log = "[]" and s = 0 and socks = sample_sockets and refused = errCrossOriginRequest]
  note tx = rpcTune_route_status [OF x1 x2 x3 b4 b5 x6 b7 b8, where t = sample_tuner
      and log = "[]" and s = 0 and socks = sample_sockets and refused = errCrossOriginRequest]
  have e: "api_Handler_ServeHTTP sample_library sample_sockets (logged_Tuner sample_tuner) ?r ([], 0) =
       (\<lparr>status = 400, headers = [(''Content-Type'', ''application/json'')],
          body = JsonBody (JObject [(''Error'', JString ''channel not found'')])\<rparr>,
        ([Called_Tune ''XYZ''], 0))"
    using a9 th [THEN conjunct1] by (simp add: sample_tuner_def)
  have f: "api_Handler_ServeHTTP sample_library sample_sockets (logged_Tuner sample_tuner) ?q ([], 0) =
       (\<lparr>status = 204, headers = [], body = NoBody\<rparr>, ([Called_Tune ''ABC''], 1))"
    using b9 tq [THEN conjunct1] by (simp add: sample_tuner_def)
  have g: "api_Handler_ServeHTTP sample_library sample_sockets (logged_Tuner sample_tuner) ?x ([], 0) =
       (http_Error ''cross-origin request detected from Sec-Fetch-Site header'' 403, ([], 0))"
    using x9 tx [THEN conjunct2] by (simp add: errCrossOriginRequest_def)
  show ?thesis
    by (intro conjI a1 a2 a3 a4 a5 a6 a7 a8 a9 e b9 f x9 g)
qed

text \<open>
  The claim as stated fails: a POST to /api/rpc/tune with the header
  \<^verbatim>\<open>Sec-Fetch-Site: cross-site\<close>, whose body passes RPC validation and names a channel for
  which \<^verbatim>\<open>Tune\<close> would return nil, is answered with 403, not 204, and the tuner is not
  called.
\<close>

theorem rpcTune_route_cross_site:
  "Method (sample_request ''POST'' ''/api/rpc/tune'' cross_site_json_header body_tune_ABC) = ''POST''
   \<and> Path (sample_request ''POST'' ''/api/rpc/tune'' cross_site_json_header body_tune_ABC) =
       ''/api/rpc/tune''
   \<and> body_reader (Body (sample_request ''POST'' ''/api/rpc/tune'' cross_site_json_header
         body_tune_ABC)) = (body_tune_ABC, None)
   \<and> int (length body_tune_ABC) \<le> 1024
   \<and> Header_Get (Header (sample_request ''POST'' ''/api/rpc/tune'' cross_site_json_header
         body_tune_ABC)) ''Content-Type'' = ''application/json''
   \<and> unmarshal_tune sample_library body_tune_ABC = Some \<lparr>ChannelName = ''ABC''\<rparr>
   \<and> fst (Tune sample_tuner ''ABC'' 0) = None
   \<and> status (fst (api_Handler_ServeHTTP sample_library sample_sockets (logged_Tuner sample_tuner)
         (sample_request ''POST'' ''/api/rpc/tune'' cross_site_json_header body_tune_ABC)
         ([], 0))) = 403
   \<and> status (fst (api_Handler_ServeHTTP sample_library sample_sockets (logged_Tuner sample_tuner)
         (sample_request ''POST'' ''/api/rpc/tune'' cross_site_json_header body_tune_ABC)
         ([], 0))) \<noteq> 204
   \<and> snd (api_Handler_ServeHTTP sample_library sample_sockets (logged_Tuner sample_tuner)
         (sample_request ''POST'' ''/api/rpc/tune'' cross_site_json_header body_tune_ABC)
         ([], 0)) = ([], 0)"
  by (simp add: sample_defs api_Handler_ServeHTTP_def csrf_Handler_def csrf_Check_def
      http_Error_def)

subsection \<open>C2: shutdown on a signal\<close>

text \<open>
  Claim C2, as amended. When \<^verbatim>\<open>select\<close> receives an interrupt or SIGTERM, \<^verbatim>\<open>main\<close>
  logs the shutdown, calls \<^verbatim>\<open>server.Shutdown\<close> with a context of 5 seconds, cancels the
  context and returns, so that the process exits with code 0. It never calls the tuner's
  \<^verbatim>\<open>Stop\<close>.
\<close>

theorem main_signal_shutdown:
  assumes "readChannelsConf env = Inr chans" and "select env = Signalled sg"
  shows "fst (main env) =
           main_startup env chans @ [Log_Info ''Shutting down'', Server_Shutdown 5, Context_Cancel]
       \<and> snd (main env) = 0
       \<and> Tuner_Stop \<notin> set (fst (main env))"
  using assms by (simp add: main_def main_startup_def)

theorem main_signal_shutdown_witness:
  "readChannelsConf sample_run = Inr (catalog sample_tuner)
   \<and> select sample_run = Signalled SIGTERM
   \<and> fst (main sample_run) =
       [NewTuner (catalog sample_tuner), Http_Handle ''/api/'', Http_Handle ''/'',
        Log_Info ''Starting Hypcast server'', ListenAndServe '':9200'',
        Signal_Notify [Interrupt, SIGTERM],
        Log_Info ''Shutting down'', Server_Shutdown 5, Context_Cancel]
   \<and> snd (main sample_run) = 0"
proof -
  have a1: "readChannelsConf sample_run = Inr (catalog sample_tuner)"
    and a2: "select sample_run = Signalled SIGTERM"
    by (simp_all add: sample_run_def)
  note th = main_signal_shutdown [OF a1 a2]
  have e: "fst (main sample_run) =
       [NewTuner (catalog sample_tuner), Http_Handle ''/api/'', Http_Handle ''/'',
        Log_Info ''Starting Hypcast server'', ListenAndServe '':9200'',
        Signal_Notify [Interrupt, SIGTERM],
        Log_Info ''Shutting down'', Server_Shutdown 5, Context_Cancel]"
    using th [THEN conjunct1] by (simp add: main_startup_def sample_run_def)
  show ?thesis
    by (intro conjI a1 a2 e th [THEN conjunct2, THEN conjunct1])
qed

text \<open>
  The claim as stated fails: on SIGTERM the process exits with code 0 and \<^verbatim>\<open>tuner.Stop()\<close>
  is not among the calls that \<^verbatim>\<open>main\<close> has made.
\<close>

theorem main_signal_no_tuner_stop:
  "select sample_run = Signalled SIGTERM
   \<and> snd (main sample_run) = 0
   \<and> Tuner_Stop \<notin> set (fst (main sample_run))"
  by (simp add: main_def main_startup_def sample_run_def)

subsection \<open>C3: the origin check of the WebSocket upgrades\<close>

text \<open>
  Claim C3. On the routes /api/socket/tuner-status and /api/socket/webrtc-peer, a WebSocket
  handshake is upgraded (the answer is 101 and the session of the route runs) if and only if
  \<^verbatim>\<open>http.CrossOriginProtection.Check\<close> accepts the request with its method set to POST;
  no request is upgraded without passing that check; a handshake that fails it is answered
  with 403 and its session does not run. The check passes exactly when \<^verbatim>\<open>Sec-Fetch-Site\<close>
  is \<^verbatim>\<open>same-origin\<close> or \<^verbatim>\<open>none\<close>, or is absent while \<^verbatim>\<open>Origin\<close> is absent or has the
  host of the request: a request whose \<^verbatim>\<open>Sec-Fetch-Site\<close> says \<^verbatim>\<open>cross-site\<close> or
  \<^verbatim>\<open>same-site\<close> is never upgraded.
\<close>

theorem websocket_upgrade_same_origin:
  assumes "Path r = ''/api/socket/tuner-status'' \<or> Path r = ''/api/socket/webrtc-peer''"
  shows "(websocket_handshake lib r \<longrightarrow>
            (status (fst (api_Handler_ServeHTTP lib socks t r s)) = StatusSwitchingProtocols
             \<longleftrightarrow> csrf_Check (url_host lib) (r\<lparr>Method := MethodPost\<rparr>) = None))
       \<and> (status (fst (api_Handler_ServeHTTP lib socks t r s)) = StatusSwitchingProtocols \<longrightarrow>
            websocket_handshake lib r
            \<and> csrf_Check (url_host lib) (r\<lparr>Method := MethodPost\<rparr>) = None)
       \<and> (websocket_handshake lib r
            \<and> csrf_Check (url_host lib) (r\<lparr>Method := MethodPost\<rparr>) \<noteq> None \<longrightarrow>
            api_Handler_ServeHTTP lib socks t r s = (Upgrader_returnError StatusForbidden, s))
       \<and> (websocket_handshake lib r
            \<and> csrf_Check (url_host lib) (r\<lparr>Method := MethodPost\<rparr>) = None \<longrightarrow>
            api_Handler_ServeHTTP lib socks t r s =
              (switching_protocols,
               (if Path r = ''/api/socket/webrtc-peer'' then webrtcPeerSession socks r s
                else tunerStatusSession socks r s)))
       \<and> (csrf_Check (url_host lib) (r\<lparr>Method := MethodPost\<rparr>) = None \<longleftrightarrow>
            Header_Get (Header r) ''Sec-Fetch-Site'' = ''same-origin''
            \<or> Header_Get (Header r) ''Sec-Fetch-Site'' = ''none''
            \<or> Header_Get (Header r) ''Sec-Fetch-Site'' = []
               \<and> (Header_Get (Header r) ''Origin'' = []
                   \<or> url_host lib (Header_Get (Header r) ''Origin'') = Some (Host r)))
       \<and> (Header_Get (Header r) ''Sec-Fetch-Site'' \<noteq> []
            \<and> Header_Get (Header r) ''Sec-Fetch-Site'' \<noteq> ''same-origin''
            \<and> Header_Get (Header r) ''Sec-Fetch-Site'' \<noteq> ''none'' \<longrightarrow>
            status (fst (api_Handler_ServeHTTP lib socks t r s)) \<noteq> StatusSwitchingProtocols)"
proof -
  let ?ok = "csrf_Check (url_host lib) (r\<lparr>Method := MethodPost\<rparr>) = None"
  let ?up = "Upgrader_Upgrade lib (websocketUpgrader_CheckOrigin (url_host lib)) r"
  have hdr: "?ok \<longleftrightarrow>
            Header_Get (Header r) ''Sec-Fetch-Site'' = ''same-origin''
            \<or> Header_Get (Header r) ''Sec-Fetch-Site'' = ''none''
            \<or> Header_Get (Header r) ''Sec-Fetch-Site'' = []
               \<and> (Header_Get (Header r) ''Origin'' = []
                   \<or> url_host lib (Header_Get (Header r) ''Origin'') = Some (Host r))"
    using CheckOrigin_headers [of "url_host lib" r]
    by (simp add: websocketUpgrader_CheckOrigin_def)
  have up: "?up = None \<longleftrightarrow> websocket_handshake lib r \<and> ?ok"
    by (simp add: Upgrader_Upgrade_cases(1) websocketUpgrader_CheckOrigin_def)
  have api: "api_Handler_ServeHTTP lib socks t r s =
      (case ?up of
         Some refused \<Rightarrow> (refused, s)
       | None \<Rightarrow> (switching_protocols,
                  (if Path r = ''/api/socket/webrtc-peer'' then webrtcPeerSession socks r s
                   else tunerStatusSession socks r s)))"
    using assms
    by (auto simp add: api_socket_routes handleSocketWebRTCPeer_def handleSocketTunerStatus_def
        split: option.splits)
  have st: "status (fst (api_Handler_ServeHTTP lib socks t r s)) = StatusSwitchingProtocols \<longleftrightarrow>
      websocket_handshake lib r \<and> ?ok"
  proof (cases ?up)
    case None
    then show ?thesis using up by (simp add: api switching_protocols_def)
  next
    case (Some refused)
    then show ?thesis
      using up Upgrader_Upgrade_cases(3) [OF Some] by (simp add: api)
  qed
  have refused: "api_Handler_ServeHTTP lib socks t r s = (Upgrader_returnError StatusForbidden, s)"
    if "websocket_handshake lib r" "\<not> ?ok"
    using that
    by (simp add: api Upgrader_Upgrade_cases(2) websocketUpgrader_CheckOrigin_def)
  have upgraded: "api_Handler_ServeHTTP lib socks t r s =
              (switching_protocols,
               (if Path r = ''/api/socket/webrtc-peer'' then webrtcPeerSession socks r s
                else tunerStatusSession socks r s))"
    if "websocket_handshake lib r" "?ok"
    using that up by (simp add: api)
  show ?thesis
    using st refused upgraded hdr by blast
qed

text \<open>
  A handshake that a page of another site starts on /api/socket/tuner-status is answered
  with 403 and the session does not run; one that a page of the server starts on
  /api/socket/webrtc-peer is upgraded, and the session runs.
\<close>

theorem websocket_upgrade_same_origin_witness:
  "Path (sample_request ''GET'' ''/api/socket/tuner-status'' cross_site_upgrade_header []) =
       ''/api/socket/tuner-status''
   \<and> websocket_handshake sample_library
         (sample_request ''GET'' ''/api/socket/tuner-status'' cross_site_upgrade_header [])
   \<and> csrf_Check (url_host sample_library)
         ((sample_request ''GET'' ''/api/socket/tuner-status'' cross_site_upgrade_header [])
            \<lparr>Method := MethodPost\<rparr>) = Some errCrossOriginRequest
   \<and> api_Handler_ServeHTTP sample_library counting_sockets sample_tuner
         (sample_request ''GET'' ''/api/socket/tuner-status'' cross_site_upgrade_header []) 0 =
       (Upgrader_returnError StatusForbidden, 0)
   \<and> status (fst (api_Handler_ServeHTTP sample_library counting_sockets sample_tuner
         (sample_request ''GET'' ''/api/socket/tuner-status'' cross_site_upgrade_header []) 0)) \<noteq> 101
   \<and> Path (sample_request ''GET'' ''/api/socket/webrtc-peer'' same_origin_upgrade_header []) =
       ''/api/socket/webrtc-peer''
   \<and> websocket_handshake sample_library
         (sample_request ''GET'' ''/api/socket/webrtc-peer'' same_origin_upgrade_header [])
   \<and> csrf_Check (url_host sample_library)
         ((sample_request ''GET'' ''/api/socket/webrtc-peer'' same_origin_upgrade_header [])
            \<lparr>Method := MethodPost\<rparr>) = None
   \<and> status (fst (api_Handler_ServeHTTP sample_library counting_sockets sample_tuner
         (sample_request ''GET'' ''/api/socket/webrtc-peer'' same_origin_upgrade_header []) 0)) = 101
   \<and> snd (api_Handler_ServeHTTP sample_library counting_sockets sample_tuner
         (sample_request ''GET'' ''/api/socket/webrtc-peer'' same_origin_upgrade_header []) 0) = 1"
proof -
  let ?r = "sample_request ''GET'' ''/api/socket/tuner-status'' cross_site_upgrade_header []"
  let ?q = "sample_request ''GET'' ''/api/socket/webrtc-peer'' same_origin_upgrade_header []"
  have a1: "Path ?r = ''/api/socket/tuner-status''"
    and a2: "websocket_handshake sample_library ?r"
    and a3: "csrf_Check (url_host sample_library) (?r\<lparr>Method := MethodPost\<rparr>) =
        Some errCrossOriginRequest"
    by (simp_all add: sample_defs websocket_handshake_def csrf_Check_def
        cross_site_upgrade_header_def)
  have b1: "Path ?q = ''/api/socket/webrtc-peer''"
    and b2: "websocket_handshake sample_library ?q"
    and b3: "csrf_Check (url_host sample_library) (?q\<lparr>Method := MethodPost\<rparr>) = None"
    by (simp_all add: sample_defs websocket_handshake_def csrf_Check_def
        same_origin_upgrade_header_def)
  note th = websocket_upgrade_same_origin [OF disjI1 [OF a1], where lib = sample_library
      and socks = counting_sockets and t = sample_tuner and s = 0]
  note tq = websocket_upgrade_same_origin [OF disjI2 [OF b1], where lib = sample_library
      and socks = counting_sockets and t = sample_tuner and s = 0]
  have c: "api_Handler_ServeHTTP sample_library counting_sockets sample_tuner ?r 0 =
       (Upgrader_returnError StatusForbidden, 0)"
    using a2 a3 th [THEN conjunct2, THEN conjunct2, THEN conjunct1] by simp
  have d: "status (fst (api_Handler_ServeHTTP sample_library counting_sockets sample_tuner ?r 0))
      \<noteq> 101"
    using a2 a3 th [THEN conjunct1] by simp
  have e: "status (fst (api_Handler_ServeHTTP sample_library counting_sockets sample_tuner ?q 0))
      = 101"
    using b2 b3 tq [THEN conjunct1] by simp
  have f: "snd (api_Handler_ServeHTTP sample_library counting_sockets sample_tuner ?q 0) = 1"
    using b1 b2 b3 tq [THEN conjunct2, THEN conjunct2, THEN conjunct2, THEN conjunct1]
    by (simp add: counting_sockets_def)
  show ?thesis
    by (intro conjI a1 a2 a3 c d b1 b2 b3 e f)
qed

subsection \<open>C4: the limit on the size of an RPC body\<close>




subsection \<open>C5: content type and decoding\<close>

text \<open>
  Claim C5. A POST RPC request with a non-empty body within the size limit: when its
  \<^verbatim>\<open>Content-Type\<close> header is missing or is not exactly \<^verbatim>\<open>application/json\<close> the answer is
  415, and when the header is right but the body does not decode into the parameter type the
  answer is 400; in both cases the handler function is not invoked (its log and the state are
  unchanged). This holds for the function form \<^verbatim>\<open>rpc.Handle\<close> and for the method form
  \<^verbatim>\<open>Handler.ServeHTTP\<close>, behind \<^verbatim>\<open>WithLimitedBodyBuffer\<close>.
\<close>

theorem rpc_content_type_and_decoding:
  assumes "Method r = MethodPost" and "body_reader (Body r) = (d, None)" and "d \<noteq> []"
    and "int (length d) \<le> limit"
  shows "(Header_Get (Header r) ''Content-Type'' \<noteq> ''application/json'' \<longrightarrow>
            WithLimitedBodyBuffer limit (Handle unmarshal zero (logged h)) r (log, s) =
              (\<lparr>status = StatusUnsupportedMediaType,
                headers = [(''Content-Type'', ''application/json'')],
                body = JsonBody (JObject [(''Error'', JString ''must have Content-Type: application/json'')])\<rparr>,
               (log, s))
          \<and> WithLimitedBodyBuffer limit (Handler_ServeHTTP unmarshal zero (logged h)) r (log, s) =
              (\<lparr>status = StatusUnsupportedMediaType,
                headers = [(''Content-Type'', ''application/json'')],
                body = JsonBody (JObject [(''Error'', JString ''must have Content-Type: application/json'')])\<rparr>,
               (log, s)))
       \<and> (Header_Get (Header r) ''Content-Type'' = ''application/json'' \<and> unmarshal d = None \<longrightarrow>
            WithLimitedBodyBuffer limit (Handle unmarshal zero (logged h)) r (log, s) =
              (\<lparr>status = StatusBadRequest,
                headers = [(''Content-Type'', ''application/json'')],
                body = JsonBody (JObject [(''Error'', JString ''unable to decode RPC body'')])\<rparr>,
               (log, s))
          \<and> WithLimitedBodyBuffer limit (Handler_ServeHTTP unmarshal zero (logged h)) r (log, s) =
              (\<lparr>status = StatusBadRequest,
                headers = [(''Content-Type'', ''application/json'')],
                body = JsonBody (JObject [(''Error'', JString ''unable to decode RPC body'')])\<rparr>,
               (log, s)))"
proof -
  let ?r = "r\<lparr>Body := BufferedBody d\<rparr>"
  have post: "Method ?r = MethodPost" and buf: "Body ?r = BufferedBody d"
    using assms(1) by simp_all
  have hdr: "Header ?r = Header r" by simp
  have w: "WithLimitedBodyBuffer limit inner r (log, s) = inner ?r (log, s)"
    for inner :: "('a list \<times> 'b) http_handler"
    using WithLimitedBodyBuffer_within [OF assms(1,2,4)] .
  show ?thesis
    using assms(3)
    by (simp add: w Handler_ServeHTTP_buffered [OF buf] Handle_buffered [OF post buf] hdr
        respondError_framework del: request.simps)
qed

text \<open>The two cases of the package's test: a missing header, and a body that is not JSON.\<close>

theorem rpc_content_type_and_decoding_witness:
  "Method (sample_request ''POST'' ''/'' [] ''true'') = MethodPost
   \<and> body_reader (Body (sample_request ''POST'' ''/'' [] ''true'')) = (''true'', None)
   \<and> ''true'' \<noteq> [] \<and> int (length ''true'') \<le> 32
   \<and> Header_Get (Header (sample_request ''POST'' ''/'' [] ''true'')) ''Content-Type'' \<noteq> ''application/json''
   \<and> status (fst (WithLimitedBodyBuffer 32 (Handle sample_unmarshal False (logged sample_handler))
         (sample_request ''POST'' ''/'' [] ''true'') ([], 0))) = 415
   \<and> snd (WithLimitedBodyBuffer 32 (Handle sample_unmarshal False (logged sample_handler))
         (sample_request ''POST'' ''/'' [] ''true'') ([], 0)) = ([], 0)
   \<and> Method (sample_request ''POST'' ''/'' json_header ''{{{]]]'') = MethodPost
   \<and> body_reader (Body (sample_request ''POST'' ''/'' json_header ''{{{]]]'')) = (''{{{]]]'', None)
   \<and> Header_Get (Header (sample_request ''POST'' ''/'' json_header ''{{{]]]'')) ''Content-Type'' = ''application/json''
   \<and> sample_unmarshal ''{{{]]]'' = None
   \<and> status (fst (WithLimitedBodyBuffer 32 (Handle sample_unmarshal False (logged sample_handler))
         (sample_request ''POST'' ''/'' json_header ''{{{]]]'') ([], 0))) = 400
   \<and> snd (WithLimitedBodyBuffer 32 (Handle sample_unmarshal False (logged sample_handler))
         (sample_request ''POST'' ''/'' json_header ''{{{]]]'') ([], 0)) = ([], 0)"
proof -
  let ?r1 = "sample_request ''POST'' ''/'' [] ''true''"
  let ?r2 = "sample_request ''POST'' ''/'' json_header ''{{{]]]''"
  have a1: "Method ?r1 = MethodPost" and a2: "body_reader (Body ?r1) = (''true'', None)"
    and a3: "''true'' \<noteq> []" and a4: "int (length ''true'') \<le> 32"
    and a5: "Header_Get (Header ?r1) ''Content-Type'' \<noteq> ''application/json''"
    by (simp_all add: sample_defs)
  have b1: "Method ?r2 = MethodPost" and b2: "body_reader (Body ?r2) = (''{{{]]]'', None)"
    and b3: "''{{{]]]'' \<noteq> []" and b4: "int (length ''{{{]]]'') \<le> 32"
    and b5: "Header_Get (Header ?r2) ''Content-Type'' = ''application/json''"
    and b6: "sample_unmarshal ''{{{]]]'' = None"
    by (simp_all add: sample_defs)
  show ?thesis
    using a1 a2 a3 a4 a5 b1 b2 b5 b6
      rpc_content_type_and_decoding [OF a1 a2 a3 a4, where unmarshal = sample_unmarshal
        and zero = False and h = sample_handler and log = "[]" and s = 0]
      rpc_content_type_and_decoding [OF b1 b2 b3 b4, where unmarshal = sample_unmarshal
        and zero = False and h = sample_handler and log = "[]" and s = 0]
    by simp
qed

subsection \<open>C6: the conventions of RPC responses\<close>

text \<open>
  Claim C6. The response of an RPC handler (\<^verbatim>\<open>rpc.Handle\<close> and \<^verbatim>\<open>Handler.ServeHTTP\<close>,
  behind \<^verbatim>\<open>WithLimitedBodyBuffer\<close> and without it) to a POST whose body passes validation
  is made from the status code and the body value that the handler function returns: an
  error becomes the JSON object whose key \<^verbatim>\<open>Error\<close> holds the error's message, a nil body
  gives the status code alone, with no header and an empty body, and any other value is
  encoded as JSON. The errors that the validation of the framework produces (a body over the
  limit, a body that cannot be read, a wrong content type, a body that does not decode) are
  answered in the same form, with the code and the message of the error, and the state is
  left as it was. Any method other than POST gives 405 with the header \<^verbatim>\<open>Allow: POST\<close>
  and no body, whatever the body of the request, and the state is left as it was.
\<close>

theorem rpc_response_conventions:
  "(Method r = MethodPost \<and> body_reader (Body r) = (d, None) \<and> int (length d) \<le> limit
      \<and> (d = [] \<and> p = zero
          \<or> d \<noteq> [] \<and> Header_Get (Header r) ''Content-Type'' = ''application/json''
             \<and> unmarshal d = Some p)
      \<and> h (r\<lparr>Body := BufferedBody d\<rparr>) p s = ((code, b), s') \<longrightarrow>
      WithLimitedBodyBuffer limit (Handle unmarshal zero h) r s =
        (case b of
           BodyNil \<Rightarrow> \<lparr>status = code, headers = [], body = NoBody\<rparr>
         | BodyError err \<Rightarrow>
             \<lparr>status = code, headers = [(''Content-Type'', ''application/json'')],
              body = JsonBody (JObject [(''Error'', JString (go_Error err))])\<rparr>
         | BodyValue j \<Rightarrow>
             \<lparr>status = code, headers = [(''Content-Type'', ''application/json'')],
              body = JsonBody j\<rparr>, s')
      \<and> WithLimitedBodyBuffer limit (Handler_ServeHTTP unmarshal zero h) r s =
          WithLimitedBodyBuffer limit (Handle unmarshal zero h) r s)
   \<and> (Method r = MethodPost \<and> Body r = RawBody d None
      \<and> (d = [] \<and> p = zero
          \<or> d \<noteq> [] \<and> Header_Get (Header r) ''Content-Type'' = ''application/json''
             \<and> unmarshal d = Some p)
      \<and> h (r\<lparr>Body := RawBody [] None\<rparr>) p s = ((code, b), s') \<longrightarrow>
      Handle unmarshal zero h r s =
        (case b of
           BodyNil \<Rightarrow> \<lparr>status = code, headers = [], body = NoBody\<rparr>
         | BodyError err \<Rightarrow>
             \<lparr>status = code, headers = [(''Content-Type'', ''application/json'')],
              body = JsonBody (JObject [(''Error'', JString (go_Error err))])\<rparr>
         | BodyValue j \<Rightarrow>
             \<lparr>status = code, headers = [(''Content-Type'', ''application/json'')],
              body = JsonBody j\<rparr>, s')
      \<and> Handler_ServeHTTP unmarshal zero h r s = Handle unmarshal zero h r s)
   \<and> (Method r = MethodPost \<and> body_reader (Body r) = (d, e) \<and> int (length d) > limit \<and> d \<noteq> [] \<longrightarrow>
      WithLimitedBodyBuffer limit inner r s =
        (\<lparr>status = StatusRequestEntityTooLarge,
          headers = [(''Content-Type'', ''application/json'')],
          body = JsonBody (JObject [(''Error'', JString ''RPC body exceeded maximum size'')])\<rparr>, s))
   \<and> (Method r = MethodPost \<and> body_reader (Body r) = (d, Some x) \<and> int (length d) \<le> limit
      \<and> (\<forall>n. x \<noteq> MaxBytesError n) \<longrightarrow>
      WithLimitedBodyBuffer limit inner r s =
        (\<lparr>status = StatusInternalServerError,
          headers = [(''Content-Type'', ''application/json'')],
          body = JsonBody (JObject [(''Error'', JString ''unable to read RPC body'')])\<rparr>, s))
   \<and> (Method r = MethodPost \<and> body_reader (Body r) = (d, None) \<and> int (length d) \<le> limit
      \<and> d \<noteq> [] \<and> Header_Get (Header r) ''Content-Type'' \<noteq> ''application/json'' \<longrightarrow>
      WithLimitedBodyBuffer limit (Handle unmarshal zero h) r s =
        (\<lparr>status = StatusUnsupportedMediaType,
          headers = [(''Content-Type'', ''application/json'')],
          body = JsonBody (JObject [(''Error'', JString ''must have Content-Type: application/json'')])\<rparr>, s))
   \<and> (Method r = MethodPost \<and> body_reader (Body r) = (d, None) \<and> int (length d) \<le> limit
      \<and> d \<noteq> [] \<and> Header_Get (Header r) ''Content-Type'' = ''application/json''
      \<and> unmarshal d = None \<longrightarrow>
      WithLimitedBodyBuffer limit (Handle unmarshal zero h) r s =
        (\<lparr>status = StatusBadRequest,
          headers = [(''Content-Type'', ''application/json'')],
          body = JsonBody (JObject [(''Error'', JString ''unable to decode RPC body'')])\<rparr>, s))
   \<and> (Method r \<noteq> MethodPost \<longrightarrow>
        Handle unmarshal zero h r s =
          (\<lparr>status = StatusMethodNotAllowed, headers = [(''Allow'', MethodPost)], body = NoBody\<rparr>, s)
      \<and> Handler_ServeHTTP unmarshal zero h r s =
          (\<lparr>status = StatusMethodNotAllowed, headers = [(''Allow'', MethodPost)], body = NoBody\<rparr>, s)
      \<and> WithLimitedBodyBuffer limit inner r s =
          (\<lparr>status = StatusMethodNotAllowed, headers = [(''Allow'', MethodPost)], body = NoBody\<rparr>, s))
   \<and> respond code (BodyError err) =
       \<lparr>status = code, headers = [(''Content-Type'', ''application/json'')],
        body = JsonBody (JObject [(''Error'', JString (go_Error err))])\<rparr>
   \<and> respond code BodyNil = \<lparr>status = code, headers = [], body = NoBody\<rparr>"
proof (intro conjI impI)
  assume a: "Method r = MethodPost \<and> body_reader (Body r) = (d, None) \<and> int (length d) \<le> limit
      \<and> (d = [] \<and> p = zero
          \<or> d \<noteq> [] \<and> Header_Get (Header r) ''Content-Type'' = ''application/json''
             \<and> unmarshal d = Some p)
      \<and> h (r\<lparr>Body := BufferedBody d\<rparr>) p s = ((code, b), s')"
  then have a1: "Method r = MethodPost" and a2: "body_reader (Body r) = (d, None)"
    and a3: "int (length d) \<le> limit"
    and a4: "d = [] \<and> p = zero
          \<or> d \<noteq> [] \<and> Header_Get (Header r) ''Content-Type'' = ''application/json''
             \<and> unmarshal d = Some p"
    and a5: "h (r\<lparr>Body := BufferedBody d\<rparr>) p s = ((code, b), s')"
    by blast+
  note hr = handler_result_composed [where h = h and unmarshal = unmarshal and zero = zero
      and p = p, OF a1 a2 a3 a4 a5]
  show "WithLimitedBodyBuffer limit (Handle unmarshal zero h) r s =
        (case b of
           BodyNil \<Rightarrow> \<lparr>status = code, headers = [], body = NoBody\<rparr>
         | BodyError err \<Rightarrow>
             \<lparr>status = code, headers = [(''Content-Type'', ''application/json'')],
              body = JsonBody (JObject [(''Error'', JString (go_Error err))])\<rparr>
         | BodyValue j \<Rightarrow>
             \<lparr>status = code, headers = [(''Content-Type'', ''application/json'')],
              body = JsonBody j\<rparr>, s')"
    by (simp only: hr(1) respond_cases)
  show "WithLimitedBodyBuffer limit (Handler_ServeHTTP unmarshal zero h) r s =
          WithLimitedBodyBuffer limit (Handle unmarshal zero h) r s"
    by (simp only: hr)
next
  assume a: "Method r = MethodPost \<and> Body r = RawBody d None
      \<and> (d = [] \<and> p = zero
          \<or> d \<noteq> [] \<and> Header_Get (Header r) ''Content-Type'' = ''application/json''
             \<and> unmarshal d = Some p)
      \<and> h (r\<lparr>Body := RawBody [] None\<rparr>) p s = ((code, b), s')"
  then have a1: "Method r = MethodPost" and a2: "Body r = RawBody d None"
    and a4: "d = [] \<and> p = zero
          \<or> d \<noteq> [] \<and> Header_Get (Header r) ''Content-Type'' = ''application/json''
             \<and> unmarshal d = Some p"
    and a5: "h (r\<lparr>Body := RawBody [] None\<rparr>) p s = ((code, b), s')"
    by blast+
  note hr = handler_result_direct [where h = h and unmarshal = unmarshal and zero = zero
      and p = p, OF a1 a2 a4 a5]
  show "Handle unmarshal zero h r s =
        (case b of
           BodyNil \<Rightarrow> \<lparr>status = code, headers = [], body = NoBody\<rparr>
         | BodyError err \<Rightarrow>
             \<lparr>status = code, headers = [(''Content-Type'', ''application/json'')],
              body = JsonBody (JObject [(''Error'', JString (go_Error err))])\<rparr>
         | BodyValue j \<Rightarrow>
             \<lparr>status = code, headers = [(''Content-Type'', ''application/json'')],
              body = JsonBody j\<rparr>, s')"
    by (simp only: hr(1) respond_cases)
  show "Handler_ServeHTTP unmarshal zero h r s = Handle unmarshal zero h r s"
    by (simp only: hr)
next
  assume "Method r = MethodPost \<and> body_reader (Body r) = (d, e) \<and> int (length d) > limit \<and> d \<noteq> []"
  then show "WithLimitedBodyBuffer limit inner r s =
        (\<lparr>status = StatusRequestEntityTooLarge,
          headers = [(''Content-Type'', ''application/json'')],
          body = JsonBody (JObject [(''Error'', JString ''RPC body exceeded maximum size'')])\<rparr>, s)"
    using validation_errors_composed(1) [of r d e limit inner s]
    by (simp add: respondError_framework)
next
  assume "Method r = MethodPost \<and> body_reader (Body r) = (d, Some x) \<and> int (length d) \<le> limit
      \<and> (\<forall>n. x \<noteq> MaxBytesError n)"
  then show "WithLimitedBodyBuffer limit inner r s =
        (\<lparr>status = StatusInternalServerError,
          headers = [(''Content-Type'', ''application/json'')],
          body = JsonBody (JObject [(''Error'', JString ''unable to read RPC body'')])\<rparr>, s)"
    using validation_errors_composed(2) [of r d "Some x" limit x inner s]
    by (simp add: respondError_framework)
next
  assume a: "Method r = MethodPost \<and> body_reader (Body r) = (d, None) \<and> int (length d) \<le> limit
      \<and> d \<noteq> [] \<and> Header_Get (Header r) ''Content-Type'' \<noteq> ''application/json''"
  then have a1: "Method r = MethodPost" and a2: "body_reader (Body r) = (d, None)"
    and a3: "int (length d) \<le> limit" by blast+
  let ?r = "r\<lparr>Body := BufferedBody d\<rparr>"
  have post: "Method ?r = MethodPost" and buf: "Body ?r = BufferedBody d"
    using a1 by simp_all
  show "WithLimitedBodyBuffer limit (Handle unmarshal zero h) r s =
        (\<lparr>status = StatusUnsupportedMediaType,
          headers = [(''Content-Type'', ''application/json'')],
          body = JsonBody (JObject [(''Error'', JString ''must have Content-Type: application/json'')])\<rparr>, s)"
    using a
    by (simp add: WithLimitedBodyBuffer_within [OF a1 a2 a3] Handle_buffered [OF post buf]
        respondError_framework)
next
  assume a: "Method r = MethodPost \<and> body_reader (Body r) = (d, None) \<and> int (length d) \<le> limit
      \<and> d \<noteq> [] \<and> Header_Get (Header r) ''Content-Type'' = ''application/json''
      \<and> unmarshal d = None"
  then have a1: "Method r = MethodPost" and a2: "body_reader (Body r) = (d, None)"
    and a3: "int (length d) \<le> limit" by blast+
  let ?r = "r\<lparr>Body := BufferedBody d\<rparr>"
  have post: "Method ?r = MethodPost" and buf: "Body ?r = BufferedBody d"
    using a1 by simp_all
  show "WithLimitedBodyBuffer limit (Handle unmarshal zero h) r s =
        (\<lparr>status = StatusBadRequest,
          headers = [(''Content-Type'', ''application/json'')],
          body = JsonBody (JObject [(''Error'', JString ''unable to decode RPC body'')])\<rparr>, s)"
    using a
    by (simp add: WithLimitedBodyBuffer_within [OF a1 a2 a3] Handle_buffered [OF post buf]
        respondError_framework)
qed (simp_all add: rpc_defs Handle_def Handler_ServeHTTP_def WithLimitedBodyBuffer_def)

text \<open>
  The tune handler returning \<^verbatim>\<open>ErrChannelNotFound\<close> and the stop handler returning a nil
  body behind the buffer, a handler returning a value without the buffer, the four errors of
  validation, and a GET.
\<close>

theorem rpc_response_conventions_witness:
  \<open>rpcTune sample_tuner
       ((sample_request ''POST'' ''/api/rpc/tune'' json_header body_tune_XYZ)
          \<lparr>Body := BufferedBody body_tune_XYZ\<rparr>) \<lparr>ChannelName = ''XYZ''\<rparr> 0 =
     ((400, BodyError ErrChannelNotFound), 0)
   \<and> WithLimitedBodyBuffer 1024
         (Handle (unmarshal_tune sample_library) \<lparr>ChannelName = []\<rparr> (rpcTune sample_tuner))
         (sample_request ''POST'' ''/api/rpc/tune'' json_header body_tune_XYZ) 0 =
       (\<lparr>status = 400, headers = [(''Content-Type'', ''application/json'')],
          body = JsonBody (JObject [(''Error'', JString ''channel not found'')])\<rparr>, 0)
   \<and> WithLimitedBodyBuffer 1024
         (Handler_ServeHTTP (unmarshal_tune sample_library) \<lparr>ChannelName = []\<rparr>
            (rpcTune sample_tuner))
         (sample_request ''POST'' ''/api/rpc/tune'' json_header body_tune_XYZ) 0 =
       (\<lparr>status = 400, headers = [(''Content-Type'', ''application/json'')],
          body = JsonBody (JObject [(''Error'', JString ''channel not found'')])\<rparr>, 0)
   \<and> rpcStop sample_tuner
         ((sample_request ''POST'' ''/api/rpc/stop'' [] [])\<lparr>Body := BufferedBody []\<rparr>) () 0 =
       ((204, BodyNil), 1)
   \<and> WithLimitedBodyBuffer 1024 (Handle (unmarshal_stop sample_library) () (rpcStop sample_tuner))
         (sample_request ''POST'' ''/api/rpc/stop'' [] []) 0 =
       (\<lparr>status = 204, headers = [], body = NoBody\<rparr>, 1)
   \<and> sample_handler
         ((sample_request ''POST'' ''/'' json_header ''true'')\<lparr>Body := RawBody [] None\<rparr>) True 0 =
       ((200, BodyValue (JString ''on'')), 1)
   \<and> Handle sample_unmarshal False sample_handler
         (sample_request ''POST'' ''/'' json_header ''true'') 0 =
       (\<lparr>status = 200, headers = [(''Content-Type'', ''application/json'')],
          body = JsonBody (JString ''on'')\<rparr>, 1)
   \<and> Handler_ServeHTTP sample_unmarshal False sample_handler
         (sample_request ''POST'' ''/'' json_header ''true'') 0 =
       (\<lparr>status = 200, headers = [(''Content-Type'', ''application/json'')],
          body = JsonBody (JString ''on'')\<rparr>, 1)
   \<and> int (length oversized_body) > 32
   \<and> WithLimitedBodyBuffer 32 (Handle sample_unmarshal False sample_handler)
         (sample_request ''POST'' ''/'' json_header oversized_body) 0 =
       (\<lparr>status = 413, headers = [(''Content-Type'', ''application/json'')],
          body = JsonBody (JObject [(''Error'', JString ''RPC body exceeded maximum size'')])\<rparr>, 0)
   \<and> body_reader (Body failing_request) = ([], Some (ErrorString ''unexpected EOF''))
   \<and> WithLimitedBodyBuffer 32 (Handle sample_unmarshal False sample_handler) failing_request 0 =
       (\<lparr>status = 500, headers = [(''Content-Type'', ''application/json'')],
          body = JsonBody (JObject [(''Error'', JString ''unable to read RPC body'')])\<rparr>, 0)
   \<and> Header_Get (Header (sample_request ''POST'' ''/'' [] ''true'')) ''Content-Type'' = []
   \<and> WithLimitedBodyBuffer 32 (Handle sample_unmarshal False sample_handler)
         (sample_request ''POST'' ''/'' [] ''true'') 0 =
       (\<lparr>status = 415, headers = [(''Content-Type'', ''application/json'')],
          body = JsonBody (JObject [(''Error'',
                   JString ''must have Content-Type: application/json'')])\<rparr>, 0)
   \<and> sample_unmarshal ''maybe'' = None
   \<and> WithLimitedBodyBuffer 32 (Handle sample_unmarshal False sample_handler)
         (sample_request ''POST'' ''/'' json_header ''maybe'') 0 =
       (\<lparr>status = 400, headers = [(''Content-Type'', ''application/json'')],
          body = JsonBody (JObject [(''Error'', JString ''unable to decode RPC body'')])\<rparr>, 0)
   \<and> Method (sample_request ''GET'' ''/'' json_header ''true'') = ''GET''
   \<and> Handle sample_unmarshal False sample_handler
         (sample_request ''GET'' ''/'' json_header ''true'') 0 =
       (\<lparr>status = 405, headers = [(''Allow'', ''POST'')], body = NoBody\<rparr>, 0)
   \<and> Handler_ServeHTTP sample_unmarshal False sample_handler
         (sample_request ''GET'' ''/'' json_header ''true'') 0 =
       (\<lparr>status = 405, headers = [(''Allow'', ''POST'')], body = NoBody\<rparr>, 0)
   \<and> WithLimitedBodyBuffer 32 (Handle sample_unmarshal False sample_handler)
         (sample_request ''GET'' ''/'' json_header ''true'') 0 =
       (\<lparr>status = 405, headers = [(''Allow'', ''POST'')], body = NoBody\<rparr>, 0)\<close>
proof -
  let ?tune = "sample_request ''POST'' ''/api/rpc/tune'' json_header body_tune_XYZ"
  let ?stop = "sample_request ''POST'' ''/api/rpc/stop'' [] []"
  let ?true = "sample_request ''POST'' ''/'' json_header ''true''"
  let ?big = "sample_request ''POST'' ''/'' json_header oversized_body"
  let ?plain = "sample_request ''POST'' ''/'' [] ''true''"
  let ?maybe = "sample_request ''POST'' ''/'' json_header ''maybe''"
  let ?get = "sample_request ''GET'' ''/'' json_header ''true''"
  let ?inner = "Handle sample_unmarshal False sample_handler"
  have a: "Method ?tune = MethodPost \<and> body_reader (Body ?tune) = (body_tune_XYZ, None)
      \<and> int (length body_tune_XYZ) \<le> 1024
      \<and> (body_tune_XYZ = [] \<and> \<lparr>ChannelName = ''XYZ''\<rparr> = \<lparr>ChannelName = []\<rparr>
          \<or> body_tune_XYZ \<noteq> [] \<and> Header_Get (Header ?tune) ''Content-Type'' = ''application/json''
             \<and> unmarshal_tune sample_library body_tune_XYZ = Some \<lparr>ChannelName = ''XYZ''\<rparr>)
      \<and> rpcTune sample_tuner (?tune\<lparr>Body := BufferedBody body_tune_XYZ\<rparr>)
            \<lparr>ChannelName = ''XYZ''\<rparr> 0 = ((400, BodyError ErrChannelNotFound), 0)"
    by (simp add: sample_defs rpcTune_def)
  note ta = rpc_response_conventions [where r = "sample_request ''POST'' ''/api/rpc/tune'' json_header body_tune_XYZ"
      and d = body_tune_XYZ and limit = 1024 and p = "\<lparr>ChannelName = ''XYZ''\<rparr>"
      and zero = "\<lparr>ChannelName = []\<rparr>" and unmarshal = "unmarshal_tune sample_library"
      and h = "rpcTune sample_tuner" and s = 0 and code = 400
      and b = "BodyError ErrChannelNotFound" and s' = 0, THEN conjunct1, rule_format, OF a]
  have a1: "WithLimitedBodyBuffer 1024
         (Handle (unmarshal_tune sample_library) \<lparr>ChannelName = []\<rparr> (rpcTune sample_tuner))
         ?tune 0 =
       (\<lparr>status = 400, headers = [(''Content-Type'', ''application/json'')],
          body = JsonBody (JObject [(''Error'', JString ''channel not found'')])\<rparr>, 0)"
    using ta [THEN conjunct1] by simp
  have a2: "WithLimitedBodyBuffer 1024
         (Handler_ServeHTTP (unmarshal_tune sample_library) \<lparr>ChannelName = []\<rparr>
            (rpcTune sample_tuner)) ?tune 0 =
       (\<lparr>status = 400, headers = [(''Content-Type'', ''application/json'')],
          body = JsonBody (JObject [(''Error'', JString ''channel not found'')])\<rparr>, 0)"
    using ta [THEN conjunct2] a1 by simp
  have b: "Method ?stop = MethodPost \<and> body_reader (Body ?stop) = ([], None)
      \<and> int (length ([] :: string)) \<le> 1024
      \<and> (([] :: string) = [] \<and> () = ()
          \<or> ([] :: string) \<noteq> [] \<and> Header_Get (Header ?stop) ''Content-Type'' = ''application/json''
             \<and> unmarshal_stop sample_library [] = Some ())
      \<and> rpcStop sample_tuner (?stop\<lparr>Body := BufferedBody []\<rparr>) () 0 = ((204, BodyNil), 1)"
    by (simp add: sample_defs rpcStop_def)
  have b1: "WithLimitedBodyBuffer 1024
         (Handle (unmarshal_stop sample_library) () (rpcStop sample_tuner)) ?stop 0 =
       (\<lparr>status = 204, headers = [], body = NoBody\<rparr>, 1)"
    using rpc_response_conventions [where r = "sample_request ''POST'' ''/api/rpc/stop'' [] []"
        and d = "[]" and limit = 1024 and p = "()" and zero = "()"
        and unmarshal = "unmarshal_stop sample_library" and h = "rpcStop sample_tuner" and s = 0
        and code = 204 and b = BodyNil and s' = 1, THEN conjunct1, rule_format, OF b,
        THEN conjunct1]
    by simp
  have c: "Method ?true = MethodPost \<and> Body ?true = RawBody ''true'' None
      \<and> (''true'' = [] \<and> True = False
          \<or> ''true'' \<noteq> [] \<and> Header_Get (Header ?true) ''Content-Type'' = ''application/json''
             \<and> sample_unmarshal ''true'' = Some True)
      \<and> sample_handler (?true\<lparr>Body := RawBody [] None\<rparr>) True 0 =
          ((200, BodyValue (JString ''on'')), 1)"
    by (simp add: sample_defs)
  note tc = rpc_response_conventions [where r = "sample_request ''POST'' ''/'' json_header ''true''"
      and d = "''true''" and p = True and zero = False and unmarshal = sample_unmarshal
      and h = sample_handler and s = 0 and code = 200 and b = "BodyValue (JString ''on'')"
      and s' = 1, THEN conjunct2, THEN conjunct1, rule_format, OF c]
  have c1: "Handle sample_unmarshal False sample_handler ?true 0 =
       (\<lparr>status = 200, headers = [(''Content-Type'', ''application/json'')],
          body = JsonBody (JString ''on'')\<rparr>, 1)"
    using tc [THEN conjunct1] by simp
  have c2: "Handler_ServeHTTP sample_unmarshal False sample_handler ?true 0 =
       (\<lparr>status = 200, headers = [(''Content-Type'', ''application/json'')],
          body = JsonBody (JString ''on'')\<rparr>, 1)"
    using tc [THEN conjunct2] c1 by simp
  have d0: "int (length oversized_body) > 32"
    by (simp add: oversized_body_def)
  have d: "Method ?big = MethodPost \<and> body_reader (Body ?big) = (oversized_body, None)
      \<and> int (length oversized_body) > 32 \<and> oversized_body \<noteq> []"
    by (simp add: sample_request_def oversized_body_def)
  have d1: "WithLimitedBodyBuffer 32 ?inner ?big 0 =
       (\<lparr>status = 413, headers = [(''Content-Type'', ''application/json'')],
          body = JsonBody (JObject [(''Error'', JString ''RPC body exceeded maximum size'')])\<rparr>, 0)"
    by (rule rpc_response_conventions [THEN conjunct2, THEN conjunct2, THEN conjunct1,
          rule_format, OF d])
  have e0: "body_reader (Body failing_request) = ([], Some (ErrorString ''unexpected EOF''))"
    by (simp add: failing_request_def)
  have e: "Method failing_request = MethodPost
      \<and> body_reader (Body failing_request) = ([], Some (ErrorString ''unexpected EOF''))
      \<and> int (length ([] :: string)) \<le> 32 \<and> (\<forall>n. ErrorString ''unexpected EOF'' \<noteq> MaxBytesError n)"
    by (simp add: failing_request_def)
  have e1: "WithLimitedBodyBuffer 32 ?inner failing_request 0 =
       (\<lparr>status = 500, headers = [(''Content-Type'', ''application/json'')],
          body = JsonBody (JObject [(''Error'', JString ''unable to read RPC body'')])\<rparr>, 0)"
    by (rule rpc_response_conventions [THEN conjunct2, THEN conjunct2, THEN conjunct2,
          THEN conjunct1, rule_format, OF e])
  have f0: "Header_Get (Header ?plain) ''Content-Type'' = []"
    by (simp add: sample_defs)
  have f: "Method ?plain = MethodPost \<and> body_reader (Body ?plain) = (''true'', None)
      \<and> int (length ''true'') \<le> 32 \<and> ''true'' \<noteq> []
      \<and> Header_Get (Header ?plain) ''Content-Type'' \<noteq> ''application/json''"
    by (simp add: sample_defs)
  have f1: "WithLimitedBodyBuffer 32 ?inner ?plain 0 =
       (\<lparr>status = 415, headers = [(''Content-Type'', ''application/json'')],
          body = JsonBody (JObject [(''Error'',
                   JString ''must have Content-Type: application/json'')])\<rparr>, 0)"
    by (rule rpc_response_conventions [THEN conjunct2, THEN conjunct2, THEN conjunct2,
          THEN conjunct2, THEN conjunct1, rule_format, OF f])
  have g0: "sample_unmarshal ''maybe'' = None"
    by (simp add: sample_defs)
  have g: "Method ?maybe = MethodPost \<and> body_reader (Body ?maybe) = (''maybe'', None)
      \<and> int (length ''maybe'') \<le> 32 \<and> ''maybe'' \<noteq> []
      \<and> Header_Get (Header ?maybe) ''Content-Type'' = ''application/json''
      \<and> sample_unmarshal ''maybe'' = None"
    by (simp add: sample_defs)
  have g1: "WithLimitedBodyBuffer 32 ?inner ?maybe 0 =
       (\<lparr>status = 400, headers = [(''Content-Type'', ''application/json'')],
          body = JsonBody (JObject [(''Error'', JString ''unable to decode RPC body'')])\<rparr>, 0)"
    by (rule rpc_response_conventions [where unmarshal = sample_unmarshal and d = "''maybe''",
          THEN conjunct2, THEN conjunct2, THEN conjunct2, THEN conjunct2, THEN conjunct2,
          THEN conjunct1, rule_format, OF g])
  have h0: "Method ?get = ''GET''" and h: "Method ?get \<noteq> MethodPost"
    by (simp_all add: sample_defs)
  note tg = rpc_response_conventions [THEN conjunct2, THEN conjunct2, THEN conjunct2,
      THEN conjunct2, THEN conjunct2, THEN conjunct2, THEN conjunct1, rule_format, OF h,
      where unmarshal = sample_unmarshal and zero = False and h = sample_handler and s = 0
      and limit = 32 and inner = ?inner]
  have h1: "Handle sample_unmarshal False sample_handler ?get 0 =
       (\<lparr>status = 405, headers = [(''Allow'', ''POST'')], body = NoBody\<rparr>, 0)"
    by (rule tg [THEN conjunct1])
  have h2: "Handler_ServeHTTP sample_unmarshal False sample_handler ?get 0 =
       (\<lparr>status = 405, headers = [(''Allow'', ''POST'')], body = NoBody\<rparr>, 0)"
    by (rule tg [THEN conjunct2, THEN conjunct1])
  have h3: "WithLimitedBodyBuffer 32 ?inner ?get 0 =
       (\<lparr>status = 405, headers = [(''Allow'', ''POST'')], body = NoBody\<rparr>, 0)"
    by (rule tg [THEN conjunct2, THEN conjunct2])
  show ?thesis
    by (intro conjI a [THEN conjunct2, THEN conjunct2, THEN conjunct2, THEN conjunct2] a1 a2
        b [THEN conjunct2, THEN conjunct2, THEN conjunct2, THEN conjunct2] b1
        c [THEN conjunct2, THEN conjunct2, THEN conjunct2] c1 c2 d0 d1 e0 e1 f0 f1 g0 g1
        h0 h1 h2 h3)
qed

subsection \<open>C7: a tune call without a channel name\<close>

text \<open>
  Claim C7, as amended. For every POST to /api/rpc/tune whose decoded parameters have an
  empty \<^verbatim>\<open>ChannelName\<close> (the body is empty, or it has the JSON content type and decodes to
  parameters with an empty name, as \<^verbatim>\<open>{}\<close> does; the body is read without error and has
  1024 bytes or fewer): when the request passes the cross-origin check it is answered with
  400 and the JSON object \<^verbatim>\<open>{"Error":"channel name required"}\<close>; when it fails the check it
  is answered with 403. In both cases the tuner's \<^verbatim>\<open>Tune\<close> is not invoked: the log of the
  tuner's calls and the tuner's state are unchanged.
\<close>

theorem rpcTune_empty_channel_name:
  assumes "Path r = ''/api/rpc/tune''" and "Method r = MethodPost"
    and "body_reader (Body r) = (d, None)" and "int (length d) \<le> 1024"
    and "d = [] \<or> (Header_Get (Header r) ''Content-Type'' = ''application/json''
                    \<and> unmarshal_tune lib d = Some params \<and> ChannelName params = [])"
  shows "(csrf_Check (url_host lib) r = None \<longrightarrow>
            api_Handler_ServeHTTP lib socks (logged_Tuner t) r (log, s) =
              (\<lparr>status = StatusBadRequest, headers = [(''Content-Type'', ''application/json'')],
                body = JsonBody (JObject [(''Error'', JString ''channel name required'')])\<rparr>,
               (log, s)))
       \<and> (csrf_Check (url_host lib) r = Some refused \<longrightarrow>
            api_Handler_ServeHTTP lib socks (logged_Tuner t) r (log, s) =
              (http_Error (go_Error refused) StatusForbidden, (log, s)))"
proof (intro conjI impI)
  assume ok: "csrf_Check (url_host lib) r = None"
  let ?r = "r\<lparr>Body := BufferedBody d\<rparr>"
  have route: "take 9 (Path r) = ''/api/rpc/''" using assms(1) by simp
  have post: "Method ?r = MethodPost" and path: "Path ?r = ''/api/rpc/tune''"
    and buf: "Body ?r = BufferedBody d"
    using assms(1,2) by simp_all
  have "api_Handler_ServeHTTP lib socks (logged_Tuner t) r (log, s) =
      rpcMux lib (logged_Tuner t) ?r (log, s)"
    by (simp add: api_rpc_route [OF route] csrf_Handler_def ok
        WithLimitedBodyBuffer_within [OF assms(2,3,4)])
  also have "\<dots> = (case rpcTune (logged_Tuner t) ?r
                        (if d = [] then \<lparr>ChannelName = []\<rparr> else params) (log, s) of
                      ((code, b), s') \<Rightarrow> (respond code b, s'))"
    using assms(5) by (auto simp add: rpcTune_buffered [OF post path buf])
  finally show "api_Handler_ServeHTTP lib socks (logged_Tuner t) r (log, s) =
              (\<lparr>status = StatusBadRequest, headers = [(''Content-Type'', ''application/json'')],
                body = JsonBody (JObject [(''Error'', JString ''channel name required'')])\<rparr>,
               (log, s))"
    using assms(5) by (auto simp add: rpcTune_def respond_def)
next
  assume "csrf_Check (url_host lib) r = Some refused"
  then show "api_Handler_ServeHTTP lib socks (logged_Tuner t) r (log, s) =
              (http_Error (go_Error refused) StatusForbidden, (log, s))"
    using assms(1) by (intro api_rpc_refused) simp_all
qed

text \<open>
  The body \<^verbatim>\<open>{}\<close>, with a decoder that gives it the zero value of the parameters, sent by a
  page of the server and by a page of another site.
\<close>

theorem rpcTune_empty_channel_name_witness:
  "Path (sample_request ''POST'' ''/api/rpc/tune'' json_header ''{}'') = ''/api/rpc/tune''
   \<and> Method (sample_request ''POST'' ''/api/rpc/tune'' json_header ''{}'') = MethodPost
   \<and> body_reader (Body (sample_request ''POST'' ''/api/rpc/tune'' json_header ''{}'')) = (''{}'', None)
   \<and> int (length ''{}'') \<le> 1024
   \<and> Header_Get (Header (sample_request ''POST'' ''/api/rpc/tune'' json_header ''{}''))
         ''Content-Type'' = ''application/json''
   \<and> unmarshal_tune sample_library ''{}'' = Some \<lparr>ChannelName = []\<rparr>
   \<and> csrf_Check (url_host sample_library)
         (sample_request ''POST'' ''/api/rpc/tune'' json_header ''{}'') = None
   \<and> api_Handler_ServeHTTP sample_library sample_sockets (logged_Tuner sample_tuner)
         (sample_request ''POST'' ''/api/rpc/tune'' json_header ''{}'') ([], 0) =
       (\<lparr>status = 400, headers = [(''Content-Type'', ''application/json'')],
          body = JsonBody (JObject [(''Error'', JString ''channel name required'')])\<rparr>, ([], 0))
   \<and> csrf_Check (url_host sample_library)
         (sample_request ''POST'' ''/api/rpc/tune'' cross_site_json_header ''{}'') =
       Some errCrossOriginRequest
   \<and> api_Handler_ServeHTTP sample_library sample_sockets (logged_Tuner sample_tuner)
         (sample_request ''POST'' ''/api/rpc/tune'' cross_site_json_header ''{}'') ([], 0) =
       (http_Error ''cross-origin request detected from Sec-Fetch-Site header'' 403, ([], 0))"
proof -
  let ?r = "sample_request ''POST'' ''/api/rpc/tune'' json_header ''{}''"
  let ?x = "sample_request ''POST'' ''/api/rpc/tune'' cross_site_json_header ''{}''"
  have a1: "Path ?r = ''/api/rpc/tune''" and a2: "Method ?r = MethodPost"
    and a3: "body_reader (Body ?r) = (''{}'', None)"
    and a4: "int (length ''{}'') \<le> 1024"
    and a5: "Header_Get (Header ?r) ''Content-Type'' = ''application/json''"
    and a6: "unmarshal_tune sample_library ''{}'' = Some \<lparr>ChannelName = []\<rparr>"
    and a7: "csrf_Check (url_host sample_library) ?r = None"
    by (simp_all add: sample_defs csrf_Check_def)
  have a8: "''{}'' = [] \<or> (Header_Get (Header ?r) ''Content-Type'' = ''application/json''
      \<and> unmarshal_tune sample_library ''{}'' = Some \<lparr>ChannelName = []\<rparr>
      \<and> ChannelName \<lparr>ChannelName = []\<rparr> = [])"
    using a5 a6 by simp
  have x1: "Path ?x = ''/api/rpc/tune''" and x2: "Method ?x = MethodPost"
    and x3: "body_reader (Body ?x) = (''{}'', None)"
    and x5: "Header_Get (Header ?x) ''Content-Type'' = ''application/json''"
    and x7: "csrf_Check (url_host sample_library) ?x = Some errCrossOriginRequest"
    by (simp_all add: sample_defs csrf_Check_def)
  have x8: "''{}'' = [] \<or> (Header_Get (Header ?x) ''Content-Type'' = ''application/json''
      \<and> unmarshal_tune sample_library ''{}'' = Some \<lparr>ChannelName = []\<rparr>
      \<and> ChannelName \<lparr>ChannelName = []\<rparr> = [])"
    using x5 a6 by simp
  note th = rpcTune_empty_channel_name [OF a1 a2 a3 a4 a8, where t = sample_tuner
      and log = "[]" and s = 0 and socks = sample_sockets and refused = errCrossOriginRequest]
  note tx = rpcTune_empty_channel_name [OF x1 x2 x3 a4 x8, where t = sample_tuner
      and log = "[]" and s = 0 and socks = sample_sockets and refused = errCrossOriginRequest]
  have e: "api_Handler_ServeHTTP sample_library sample_sockets (logged_Tuner sample_tuner) ?r ([], 0) =
       (\<lparr>status = 400, headers = [(''Content-Type'', ''application/json'')],
          body = JsonBody (JObject [(''Error'', JString ''channel name required'')])\<rparr>, ([], 0))"
    using a7 th [THEN conjunct1] by simp
  have g: "api_Handler_ServeHTTP sample_library sample_sockets (logged_Tuner sample_tuner) ?x ([], 0) =
       (http_Error ''cross-origin request detected from Sec-Fetch-Site header'' 403, ([], 0))"
    using x7 tx [THEN conjunct2] by (simp add: errCrossOriginRequest_def)
  show ?thesis
    by (intro conjI a1 a2 a3 a4 a5 a6 a7 e x7 g)
qed

text \<open>
  The claim as stated fails: a POST to /api/rpc/tune with the JSON content type, the header
  \<^verbatim>\<open>Sec-Fetch-Site: cross-site\<close> and the body \<^verbatim>\<open>{}\<close>, which decodes to parameters with an
  empty \<^verbatim>\<open>ChannelName\<close>, is answered with 403, not 400.
\<close>

theorem rpcTune_cross_site_empty_name:
  "Method (sample_request ''POST'' ''/api/rpc/tune'' cross_site_json_header ''{}'') = ''POST''
   \<and> Path (sample_request ''POST'' ''/api/rpc/tune'' cross_site_json_header ''{}'') =
       ''/api/rpc/tune''
   \<and> body_reader (Body (sample_request ''POST'' ''/api/rpc/tune'' cross_site_json_header ''{}''))
       = (''{}'', None)
   \<and> Header_Get (Header (sample_request ''POST'' ''/api/rpc/tune'' cross_site_json_header ''{}''))
         ''Content-Type'' = ''application/json''
   \<and> unmarshal_tune sample_library ''{}'' = Some \<lparr>ChannelName = []\<rparr>
   \<and> status (fst (api_Handler_ServeHTTP sample_library sample_sockets sample_tuner
         (sample_request ''POST'' ''/api/rpc/tune'' cross_site_json_header ''{}'') 0)) = 403
   \<and> status (fst (api_Handler_ServeHTTP sample_library sample_sockets sample_tuner
         (sample_request ''POST'' ''/api/rpc/tune'' cross_site_json_header ''{}'') 0)) \<noteq> 400
   \<and> body (fst (api_Handler_ServeHTTP sample_library sample_sockets sample_tuner
         (sample_request ''POST'' ''/api/rpc/tune'' cross_site_json_header ''{}'') 0)) \<noteq>
       JsonBody (JObject [(''Error'', JString ''channel name required'')])"
  by (simp add: sample_defs api_Handler_ServeHTTP_def csrf_Handler_def csrf_Check_def
      http_Error_def)

subsection \<open>C8: the list of channels\<close>

text \<open>
  Claim C8 at an empty catalog. For a tuner whose catalog has no channel, the handler of
  GET /api/config/channels writes the content type \<^verbatim>\<open>application/json\<close> and the body
  \<^verbatim>\<open>null\<close>: \<^verbatim>\<open>slices.Collect\<close> returns the nil slice, which the encoder does not write
  as the empty array. (For a catalog that is not empty the body is the array of the names in
  catalog order, see \<open>handleConfigChannels_names\<close>.)
\<close>

theorem handleConfigChannels_empty_catalog:
  "handleConfigChannels (t\<lparr>catalog := []\<rparr>) r s =
     (\<lparr>status = StatusOK, headers = [(''Content-Type'', ''application/json'')],
       body = JsonBody JNull\<rparr>, s)"
  by (simp add: handleConfigChannels_def Tuner_ChannelNames_def slices_Collect_def
      json_of_strings_def)

subsection \<open>C9: an empty body\<close>

text \<open>
  Claim C9, as amended. A POST RPC request whose body is empty reaches the handler function
  with the zero value of the parameter type, whatever its \<^verbatim>\<open>Content-Type\<close> header and
  whatever the decoder would do: the handler function is invoked exactly once, with \<open>zero\<close>,
  behind \<^verbatim>\<open>WithLimitedBodyBuffer\<close> with any limit and also without it, and its result is
  the response. On the route, a POST to /api/rpc/stop with an empty body that passes the
  cross-origin check is answered with 204 and no body when the tuner's \<^verbatim>\<open>Stop\<close> returns
  nil, and \<^verbatim>\<open>Stop\<close> has been invoked once; one that fails the cross-origin check is answered
  with 403 and \<^verbatim>\<open>Stop\<close> is not invoked.
\<close>

theorem rpc_empty_body:
  assumes "Method r = MethodPost" and "body_reader (Body r) = ([], None)"
  shows "WithLimitedBodyBuffer limit (Handle unmarshal zero (logged h)) r (log, s) =
           (case h (r\<lparr>Body := BufferedBody []\<rparr>) zero s of
              ((code, b), s') \<Rightarrow> (respond code b, (log @ [zero], s')))
       \<and> Handle unmarshal zero (logged h) r (log, s) =
           (case h r zero s of ((code, b), s') \<Rightarrow> (respond code b, (log @ [zero], s')))
       \<and> (Path r = ''/api/rpc/stop'' \<and> csrf_Check (url_host lib) r = None \<and> fst (Stop t s) = None \<longrightarrow>
            api_Handler_ServeHTTP lib socks (logged_Tuner t) r (tlog, s) =
              (\<lparr>status = StatusNoContent, headers = [], body = NoBody\<rparr>,
               (tlog @ [Called_Stop], snd (Stop t s))))
       \<and> (Path r = ''/api/rpc/stop'' \<and> csrf_Check (url_host lib) r = Some refused \<longrightarrow>
            api_Handler_ServeHTTP lib socks (logged_Tuner t) r (tlog, s) =
              (http_Error (go_Error refused) StatusForbidden, (tlog, s)))"
proof -
  let ?r = "r\<lparr>Body := BufferedBody []\<rparr>"
  have post: "Method ?r = MethodPost" and buf: "Body ?r = BufferedBody []"
    using assms(1) by simp_all
  have w: "WithLimitedBodyBuffer lim inner r ls = inner ?r ls"
    for inner :: "'c http_handler" and ls lim
    using assms
    by (simp add: WithLimitedBodyBuffer_def respondIfBadMethod_def ReadFrom_def
        MaxBytesReader_def Let_def)
  have a: "WithLimitedBodyBuffer limit (Handle unmarshal zero (logged h)) r (log, s) =
           (case h ?r zero s of ((code, b), s') \<Rightarrow> (respond code b, (log @ [zero], s')))"
    by (simp add: w Handle_buffered [OF post buf] logged_def split: prod.splits
        del: request.simps)
  have b: "Handle unmarshal zero (logged h) r (log, s) =
           (case h r zero s of ((code, b), s') \<Rightarrow> (respond code b, (log @ [zero], s')))"
    using assms
    by (cases "Body r")
      (auto simp add: Handle_def respondIfBadMethod_def ReadFrom_def logged_def Body_update_same
        split: prod.splits)
  have c: "api_Handler_ServeHTTP lib socks (logged_Tuner t) r (tlog, s) =
              (\<lparr>status = StatusNoContent, headers = [], body = NoBody\<rparr>,
               (tlog @ [Called_Stop], snd (Stop t s)))"
    if "Path r = ''/api/rpc/stop''" "csrf_Check (url_host lib) r = None" "fst (Stop t s) = None"
  proof -
    have p: "Path ?r = ''/api/rpc/stop''" using that(1) by simp
    show ?thesis using that
      by (auto simp add: api_Handler_ServeHTTP_def csrf_Handler_def w rpcMux_def p
          Handle_buffered [OF post buf] rpcStop_def logged_Tuner_def respond_def
          split: prod.splits option.splits)
  qed
  have d: "api_Handler_ServeHTTP lib socks (logged_Tuner t) r (tlog, s) =
              (http_Error (go_Error refused) StatusForbidden, (tlog, s))"
    if "Path r = ''/api/rpc/stop''" "csrf_Check (url_host lib) r = Some refused"
    using that by (intro api_rpc_refused) simp_all
  show ?thesis using a b c d by blast
qed

text \<open>
  A POST to /api/rpc/stop with no header and no body, and the same with the header
  \<^verbatim>\<open>Sec-Fetch-Site: cross-site\<close>.
\<close>

theorem rpc_empty_body_witness:
  "Method (sample_request ''POST'' ''/api/rpc/stop'' [] []) = MethodPost
   \<and> body_reader (Body (sample_request ''POST'' ''/api/rpc/stop'' [] [])) = ([], None)
   \<and> Path (sample_request ''POST'' ''/api/rpc/stop'' [] []) = ''/api/rpc/stop''
   \<and> csrf_Check (url_host sample_library) (sample_request ''POST'' ''/api/rpc/stop'' [] []) = None
   \<and> fst (Stop sample_tuner 0) = None
   \<and> api_Handler_ServeHTTP sample_library sample_sockets (logged_Tuner sample_tuner)
         (sample_request ''POST'' ''/api/rpc/stop'' [] []) ([], 0) =
       (\<lparr>status = 204, headers = [], body = NoBody\<rparr>, ([Called_Stop], 1))
   \<and> WithLimitedBodyBuffer 32 (Handle sample_unmarshal False (logged sample_handler))
         (sample_request ''POST'' ''/api/rpc/stop'' [] []) ([], 0) =
       (\<lparr>status = 200, headers = [(''Content-Type'', ''application/json'')],
          body = JsonBody (JString ''off'')\<rparr>, ([False], 1))
   \<and> Handle sample_unmarshal False (logged sample_handler)
         (sample_request ''POST'' ''/api/rpc/stop'' [] []) ([], 0) =
       (\<lparr>status = 200, headers = [(''Content-Type'', ''application/json'')],
          body = JsonBody (JString ''off'')\<rparr>, ([False], 1))
   \<and> Method (sample_request ''POST'' ''/api/rpc/stop'' cross_site_header []) = MethodPost
   \<and> body_reader (Body (sample_request ''POST'' ''/api/rpc/stop'' cross_site_header [])) = ([], None)
   \<and> Path (sample_request ''POST'' ''/api/rpc/stop'' cross_site_header []) = ''/api/rpc/stop''
   \<and> csrf_Check (url_host sample_library)
         (sample_request ''POST'' ''/api/rpc/stop'' cross_site_header []) = Some errCrossOriginRequest
   \<and> api_Handler_ServeHTTP sample_library sample_sockets (logged_Tuner sample_tuner)
         (sample_request ''POST'' ''/api/rpc/stop'' cross_site_header []) ([], 0) =
       (http_Error ''cross-origin request detected from Sec-Fetch-Site header'' 403, ([], 0))"
proof -
  let ?r = "sample_request ''POST'' ''/api/rpc/stop'' [] []"
  let ?x = "sample_request ''POST'' ''/api/rpc/stop'' cross_site_header []"
  have a1: "Method ?r = MethodPost" and a2: "body_reader (Body ?r) = ([], None)"
    and a3: "Path ?r = ''/api/rpc/stop''" and a4: "csrf_Check (url_host sample_library) ?r = None"
    and a5: "fst (Stop sample_tuner 0) = None"
    by (simp_all add: sample_defs csrf_Check_def)
  have x1: "Method ?x = MethodPost" and x2: "body_reader (Body ?x) = ([], None)"
    and x3: "Path ?x = ''/api/rpc/stop''"
    and x4: "csrf_Check (url_host sample_library) ?x = Some errCrossOriginRequest"
    by (simp_all add: sample_defs csrf_Check_def)
  note th = rpc_empty_body [OF a1 a2, where limit = 32 and unmarshal = sample_unmarshal
      and zero = False and h = sample_handler and log = "[]" and s = 0 and lib = sample_library
      and socks = sample_sockets and t = sample_tuner and tlog = "[]"
      and refused = errCrossOriginRequest]
  note tx = rpc_empty_body [OF x1 x2, where limit = 32 and unmarshal = sample_unmarshal
      and zero = False and h = sample_handler and log = "[]" and s = 0 and lib = sample_library
      and socks = sample_sockets and t = sample_tuner and tlog = "[]"
      and refused = errCrossOriginRequest]
  have e: "api_Handler_ServeHTTP sample_library sample_sockets (logged_Tuner sample_tuner) ?r ([], 0) =
       (\<lparr>status = 204, headers = [], body = NoBody\<rparr>, ([Called_Stop], 1))"
    using a3 a4 a5 th [THEN conjunct2, THEN conjunct2, THEN conjunct1]
    by (simp add: sample_tuner_def)
  have f: "WithLimitedBodyBuffer 32 (Handle sample_unmarshal False (logged sample_handler)) ?r ([], 0) =
       (\<lparr>status = 200, headers = [(''Content-Type'', ''application/json'')],
          body = JsonBody (JString ''off'')\<rparr>, ([False], 1))"
    using th [THEN conjunct1] by (simp add: sample_handler_def respond_def)
  have f': "Handle sample_unmarshal False (logged sample_handler) ?r ([], 0) =
       (\<lparr>status = 200, headers = [(''Content-Type'', ''application/json'')],
          body = JsonBody (JString ''off'')\<rparr>, ([False], 1))"
    using th [THEN conjunct2, THEN conjunct1] by (simp add: sample_handler_def respond_def)
  have g: "api_Handler_ServeHTTP sample_library sample_sockets (logged_Tuner sample_tuner) ?x ([], 0) =
       (http_Error ''cross-origin request detected from Sec-Fetch-Site header'' 403, ([], 0))"
    using x3 x4 tx [THEN conjunct2, THEN conjunct2, THEN conjunct2]
    by (simp add: errCrossOriginRequest_def)
  show ?thesis
    by (intro conjI a1 a2 a3 a4 a5 e f f' x1 x2 x3 x4 g)
qed

text \<open>
  The claim as stated fails: a POST to /api/rpc/stop with an empty body, no
  \<^verbatim>\<open>Content-Type\<close> header and the header \<^verbatim>\<open>Sec-Fetch-Site: cross-site\<close>, on a tuner whose
  \<^verbatim>\<open>Stop\<close> returns nil, is answered with 403, not 204, and \<^verbatim>\<open>Stop\<close> is not invoked.
\<close>

theorem rpcStop_cross_site_empty_body:
  "Method (sample_request ''POST'' ''/api/rpc/stop'' cross_site_header []) = ''POST''
   \<and> Path (sample_request ''POST'' ''/api/rpc/stop'' cross_site_header []) = ''/api/rpc/stop''
   \<and> body_reader (Body (sample_request ''POST'' ''/api/rpc/stop'' cross_site_header [])) = ([], None)
   \<and> Header_Get (Header (sample_request ''POST'' ''/api/rpc/stop'' cross_site_header []))
         ''Content-Type'' = []
   \<and> fst (Stop sample_tuner 0) = None
   \<and> status (fst (api_Handler_ServeHTTP sample_library sample_sockets (logged_Tuner sample_tuner)
         (sample_request ''POST'' ''/api/rpc/stop'' cross_site_header []) ([], 0))) = 403
   \<and> status (fst (api_Handler_ServeHTTP sample_library sample_sockets (logged_Tuner sample_tuner)
         (sample_request ''POST'' ''/api/rpc/stop'' cross_site_header []) ([], 0))) \<noteq> 204
   \<and> snd (api_Handler_ServeHTTP sample_library sample_sockets (logged_Tuner sample_tuner)
         (sample_request ''POST'' ''/api/rpc/stop'' cross_site_header []) ([], 0)) = ([], 0)"
  by (simp add: sample_defs api_Handler_ServeHTTP_def csrf_Handler_def csrf_Check_def
      http_Error_def)

subsection \<open>C10: the two-stage composition and the earlier single-stage handlers\<close>




end
